theory Spec2Isabelle
  imports Complex_Main "HOL-Library.Log_Nat"
begin

section \<open>CyberGuard front ends: a shallow embedding\<close>

text \<open>
  The repository holds two front ends of the phishing-detection service: the legacy
  dashboard script (plain JavaScript: \<^verbatim>\<open>analyzeURL\<close>, \<^verbatim>\<open>loadStatistics\<close>,
  \<^verbatim>\<open>updateDonutChart\<close>, \<^verbatim>\<open>extractDomain\<close>, \<^verbatim>\<open>getSeverity\<close>) and the React application
  (\<^verbatim>\<open>App.jsx\<close> with \<^verbatim>\<open>LandingPage\<close> and \<^verbatim>\<open>ProtectedRoute\<close>, the \<^verbatim>\<open>Dashboard\<close> page, the
  \<^verbatim>\<open>api\<close> service and \<^verbatim>\<open>supabaseClient.js\<close>).

  Conventions of the embedding:
  \<^item> a JavaScript string is a \<^typ>\<open>string\<close>; its characters are limited to the 8-bit range;
  \<^item> a risk score, which the service documents as an integer, is an \<^typ>\<open>int\<close>;
  \<^item> any other JavaScript number is an IEEE 754 double, and every operation on numbers
    rounds as the double arithmetic does;
  \<^item> an exception is the \<open>Inl\<close> branch of a sum, a promise is the value it settles to.
\<close>

subsection \<open>Severity and risk bands\<close>

text \<open>
  Legacy dashboard:
  \<^verbatim>\<open>
  function getSeverity(riskScore) {
      if (riskScore >= 76) return 'CRITICAL';
      if (riskScore >= 51) return 'HIGH';
      if (riskScore >= 26) return 'MEDIUM';
      return 'LOW';
  }
  \<close>
\<close>

definition getSeverity :: "int \<Rightarrow> string" where
  "getSeverity riskScore =
     (if riskScore \<ge> 76 then ''CRITICAL''
      else if riskScore \<ge> 51 then ''HIGH''
      else if riskScore \<ge> 26 then ''MEDIUM''
      else ''LOW'')"

text \<open>
  React result views. \<^verbatim>\<open>LandingPage\<close> (App.jsx) and the analysis tab of \<^verbatim>\<open>Dashboard\<close>
  both colour the risk score with
  \<^verbatim>\<open>
  result.risk_score > 70 ? 'text-critical' : result.risk_score > 30 ? 'text-warning' : 'text-success'
  \<close>
\<close>

definition LandingPage_riskClass :: "int \<Rightarrow> string" where
  "LandingPage_riskClass risk_score =
     (if risk_score > 70 then ''text-critical''
      else if risk_score > 30 then ''text-warning''
      else ''text-success'')"

definition Dashboard_riskClass :: "int \<Rightarrow> string" where
  "Dashboard_riskClass risk_score =
     (if risk_score > 70 then ''text-critical''
      else if risk_score > 30 then ''text-warning''
      else ''text-success'')"

subsection \<open>JavaScript strings and errors\<close>

text \<open>
  \<^verbatim>\<open>String.prototype.startsWith\<close>, \<^verbatim>\<open>substring\<close> (both indices clamped to the length, the
  smaller one first) and \<^verbatim>\<open>trim\<close>. The white space \<^verbatim>\<open>trim\<close> removes is, within the 8-bit
  range, TAB, LF, VT, FF, CR, SPACE and NO-BREAK SPACE.
\<close>

definition startsWith :: "string \<Rightarrow> string \<Rightarrow> bool" where
  "startsWith s searchString = (take (length searchString) s = searchString)"

definition substring :: "string \<Rightarrow> nat \<Rightarrow> nat \<Rightarrow> string" where
  "substring s indexStart indexEnd =
     (let a = min indexStart (length s); b = min indexEnd (length s)
      in take (max a b - min a b) (drop (min a b) s))"

definition isWhiteSpace :: "char \<Rightarrow> bool" where
  "isWhiteSpace c = (of_char c \<in> {9, 10, 11, 12, 13, 32, 160 :: nat})"

definition trim :: "string \<Rightarrow> string" where
  "trim s = rev (dropWhile isWhiteSpace (rev (dropWhile isWhiteSpace s)))"

text \<open>
  A thrown value: \<^verbatim>\<open>new Error(message)\<close>, or one of the built-in \<^verbatim>\<open>TypeError\<close> (a call on
  \<^verbatim>\<open>undefined\<close>, a rejected \<^verbatim>\<open>fetch\<close>, an invalid URL) and \<^verbatim>\<open>SyntaxError\<close> (a body that is
  not JSON).
\<close>

datatype js_error = Error string | TypeError | SyntaxError

subsection \<open>JavaScript numbers\<close>

text \<open>
  A JavaScript number is an IEEE 754 binary64 value: \<^verbatim>\<open>NaN\<close>, an infinity, or a finite
  double, kept as the rational it denotes. The sign of zero is not kept: no operation of
  the modelled code shows it.

  Every arithmetic operation computes the exact result and rounds it to the nearest
  double, ties to the even significand (\<open>rne\<close>). \<open>ilog2 x\<close> is the binary exponent of a
  positive \<open>x\<close>, \<open>quantum x\<close> the exponent of the last place of the format at \<open>x\<close>: 52
  places below the binary exponent, and never below \<open>-1074\<close>, where the subnormal numbers
  end. \<open>round64\<close> rounds to a multiple of that unit; \<open>fl\<close> adds the overflow to an infinity
  from \<open>2 ^ 1024\<close> on. A numeric literal, in the script or in a JSON body, denotes \<open>fl\<close> of
  its decimal value.
\<close>

datatype number = NaN | PosInfinity | NegInfinity | Fin rat

definition rne :: "rat \<Rightarrow> int" where
  "rne x =
     (let f = \<lfloor>x\<rfloor>; d = x - of_int f
      in if d < 1 / 2 then f else if 1 / 2 < d then f + 1 else if even f then f else f + 1)"

definition ilog2 :: "rat \<Rightarrow> int" where
  "ilog2 x = (if 1 \<le> x then bitlen \<lfloor>x\<rfloor> - 1 else - bitlen (\<lceil>1 / x\<rceil> - 1))"

definition quantum :: "rat \<Rightarrow> int" where
  "quantum x = max (ilog2 \<bar>x\<bar> - 52) (- 1074)"

definition round64 :: "rat \<Rightarrow> rat" where
  "round64 x = (if x = 0 then 0 else of_int (rne (x / 2 powi quantum x)) * 2 powi quantum x)"

definition fl :: "rat \<Rightarrow> number" where
  "fl x =
     (let y = round64 x
      in if 2 ^ 1024 \<le> y then PosInfinity else if y \<le> - (2 ^ 1024) then NegInfinity else Fin y)"

text \<open>
  The operators \<^verbatim>\<open>+\<close>, \<^verbatim>\<open>*\<close>, \<^verbatim>\<open>/\<close>, \<^verbatim>\<open>>=\<close> and \<^verbatim>\<open>>\<close> on numbers. An infinity minus itself,
  an infinity times zero, zero by zero and an infinity by an infinity are \<^verbatim>\<open>NaN\<close>; a
  division by zero (which the code meets as a positive zero only) is an infinity; every
  comparison with \<^verbatim>\<open>NaN\<close> is false.
\<close>

fun fadd :: "number \<Rightarrow> number \<Rightarrow> number" where
  "fadd (Fin a) (Fin b) = fl (a + b)"
| "fadd NaN y = NaN"
| "fadd x NaN = NaN"
| "fadd PosInfinity NegInfinity = NaN"
| "fadd NegInfinity PosInfinity = NaN"
| "fadd PosInfinity y = PosInfinity"
| "fadd NegInfinity y = NegInfinity"
| "fadd (Fin a) y = y"

fun fmul :: "number \<Rightarrow> number \<Rightarrow> number" where
  "fmul (Fin a) (Fin b) = fl (a * b)"
| "fmul NaN y = NaN"
| "fmul x NaN = NaN"
| "fmul (Fin a) y =
     (if a = 0 then NaN else if (0 < a) = (y = PosInfinity) then PosInfinity else NegInfinity)"
| "fmul x (Fin b) =
     (if b = 0 then NaN else if (0 < b) = (x = PosInfinity) then PosInfinity else NegInfinity)"
| "fmul x y = (if x = y then PosInfinity else NegInfinity)"

fun fdiv :: "number \<Rightarrow> number \<Rightarrow> number" where
  "fdiv (Fin a) (Fin b) =
     (if b = 0 then (if a = 0 then NaN else if 0 < a then PosInfinity else NegInfinity)
      else fl (a / b))"
| "fdiv NaN y = NaN"
| "fdiv x NaN = NaN"
| "fdiv (Fin a) y = Fin 0"
| "fdiv x (Fin b) = (if (0 \<le> b) = (x = PosInfinity) then PosInfinity else NegInfinity)"
| "fdiv x y = NaN"

fun fge :: "number \<Rightarrow> number \<Rightarrow> bool" where
  "fge (Fin a) (Fin b) = (b \<le> a)"
| "fge NaN y = False"
| "fge x NaN = False"
| "fge PosInfinity y = True"
| "fge x NegInfinity = True"
| "fge x y = False"

fun fgt :: "number \<Rightarrow> number \<Rightarrow> bool" where
  "fgt (Fin a) (Fin b) = (b < a)"
| "fgt NaN y = False"
| "fgt x NaN = False"
| "fgt PosInfinity y = (y \<noteq> PosInfinity)"
| "fgt x NegInfinity = (x \<noteq> NegInfinity)"
| "fgt x y = False"

text \<open>
  Text written into the page is a list of parts: a literal, the string JavaScript gives a
  finite number (\<open>NumberText\<close>), or the output of \<^verbatim>\<open>toFixed\<close>: \<open>FixedText neg d n\<close> is the
  numeral of \<open>n / 10 ^ d\<close> with \<open>d\<close> fraction digits, after a minus sign when \<open>neg\<close>.

  \<open>numberText\<close> is the conversion of a number to a string. \<open>toFixed\<close> is
  \<^verbatim>\<open>Number.prototype.toFixed(digits)\<close> on a finite double: the multiple of \<open>10 ^ -digits\<close>
  nearest to its exact value, the larger magnitude on a tie; from \<open>10 ^ 21\<close> on it prints
  like the conversion to a string. \<open>toFixedN\<close> extends it to \<^verbatim>\<open>NaN\<close> and the infinities,
  which print by name.
\<close>

datatype text_part = Lit string | NumberText rat | FixedText bool nat nat

fun numberText :: "number \<Rightarrow> text_part" where
  "numberText NaN = Lit ''NaN''"
| "numberText PosInfinity = Lit ''Infinity''"
| "numberText NegInfinity = Lit ''-Infinity''"
| "numberText (Fin x) = NumberText x"

definition toFixed :: "nat \<Rightarrow> rat \<Rightarrow> text_part" where
  "toFixed digits x =
     (if \<bar>x\<bar> \<ge> 10 ^ 21 then NumberText x
      else FixedText (x < 0) digits (nat \<lfloor>\<bar>x\<bar> * 10 ^ digits + 1 / 2\<rfloor>))"

fun toFixedN :: "nat \<Rightarrow> number \<Rightarrow> text_part" where
  "toFixedN digits NaN = Lit ''NaN''"
| "toFixedN digits PosInfinity = Lit ''Infinity''"
| "toFixedN digits NegInfinity = Lit ''-Infinity''"
| "toFixedN digits (Fin x) = toFixed digits x"

subsection \<open>The analysis endpoint\<close>

text \<open>
  The body of a successful \<^verbatim>\<open>POST /api/analyze-url\<close> reply,
  \<^verbatim>\<open>{ prediction, confidence, risk_score, threat_type, timestamp }\<close>; a \<^verbatim>\<open>null\<close> threat type
  is \<open>None\<close>, the confidence is given by its JSON literal.
\<close>

record ClassificationResult =
  prediction :: string
  confidence :: rat
  risk_score :: int
  threat_type :: "string option"
  timestamp :: string

text \<open>
  What the front ends see of \<^verbatim>\<open>fetch\<close>: the request they send, and a reply that is either
  a rejection of the promise or a response with its \<^verbatim>\<open>ok\<close> flag and the outcome of
  \<^verbatim>\<open>response.json()\<close>. The network and the service are a parameter
  \<open>fetch :: request \<Rightarrow> js_error + 'a response\<close> of every function that calls them.
\<close>

record request =
  req_method :: string
  req_path :: string
  req_url :: string

record 'a response =
  ok :: bool
  json :: "js_error + 'a"

text \<open>
  Both front ends send the same request:
  \<^verbatim>\<open>fetch('/api/analyze-url', { method: 'POST', headers: ..., body: JSON.stringify({ url }) })\<close>.
\<close>

definition analyzeRequest :: "string \<Rightarrow> request" where
  "analyzeRequest url =
     \<lparr>req_method = ''POST'', req_path = ''/api/analyze-url'', req_url = url\<rparr>"

text \<open>
  Everything a handler does besides updating its state is kept in a list of effects, in
  the order of execution. Changes of the style, the classes and the disabled state of DOM
  elements are left out. A notification is kept by its kind and the values in its message:
  the risk score and the threat type, or the confidence percentage.
\<close>

datatype notification =
    PhishingDetected int "string option"
  | AppearsLegitimate text_part
  | AnalysisFailed

datatype effect =
    Alert string
  | Fetch request
  | ConsoleError js_error
  | ShowNotification notification
  | ScheduleRefresh
  | SetTextContent string "text_part list"
  | UpdateDonut "string list" "number list"
  | SetLegend "(string \<times> text_part list) list"
  | CreateMiniCharts

definition requests :: "effect list \<Rightarrow> request list" where
  "requests effs = concat (map (\<lambda>e. case e of Fetch r \<Rightarrow> [r] | _ \<Rightarrow> []) effs)"

text \<open>
  The React API service:
  \<^verbatim>\<open>
  analyzeUrl: async (url) => {
      try {
          const response = await fetch('/api/analyze-url', {...});
          if (!response.ok) throw new Error('Analysis failed');
          return await response.json();
      } catch (error) {
          console.error('API Error:', error);
          throw error;
      }
  }
  \<close>
\<close>

definition api_analyzeUrl ::
  "(request \<Rightarrow> js_error + 'a response) \<Rightarrow> string \<Rightarrow> (js_error + 'a) \<times> effect list" where
  "api_analyzeUrl fetch url =
     (let tried =
        (case fetch (analyzeRequest url) of
           Inl rejected \<Rightarrow> Inl rejected
         | Inr response \<Rightarrow>
             if \<not> ok response then Inl (Error ''Analysis failed'') else json response)
      in case tried of
           Inl err \<Rightarrow> (Inl err, [Fetch (analyzeRequest url), ConsoleError err])
         | Inr data \<Rightarrow> (Inr data, [Fetch (analyzeRequest url)]))"

text \<open>
  The state of \<^verbatim>\<open>LandingPage\<close> that \<^verbatim>\<open>handleAnalyze\<close> touches: the \<^verbatim>\<open>useState\<close> variables
  \<^verbatim>\<open>url\<close>, \<^verbatim>\<open>isAnalyzing\<close>, \<^verbatim>\<open>result\<close> and \<^verbatim>\<open>error\<close> (\<^verbatim>\<open>null\<close> is \<open>None\<close>).
  \<^verbatim>\<open>
  const handleAnalyze = async () => {
    if (!url) return
    setIsAnalyzing(true)
    setError(null)
    setResult(null)
    try {
      const data = await import('./lib/api').then(m => m.api.analyzeUrl(url))
      setResult(data)
    } catch (err) {
      setError('Analysis failed. Please try again.')
    } finally {
      setIsAnalyzing(false)
    }
  }
  \<close>
  The dynamic import of the API module is taken to succeed.
\<close>

record 'a LandingPage =
  url_st :: string
  isAnalyzing_st :: bool
  result_st :: "'a option"
  error_st :: "string option"

definition handleAnalyze ::
  "(request \<Rightarrow> js_error + 'a response) \<Rightarrow> 'a LandingPage \<Rightarrow> 'a LandingPage \<times> effect list" where
  "handleAnalyze fetch st =
     (if url_st st = [] then (st, [])
      else
        let st1 = st\<lparr>isAnalyzing_st := True, error_st := None, result_st := None\<rparr>
        in case api_analyzeUrl fetch (url_st st) of
             (Inr data, effs) \<Rightarrow>
               (st1\<lparr>result_st := Some data, isAnalyzing_st := False\<rparr>, effs)
           | (Inl err, effs) \<Rightarrow>
               (st1\<lparr>error_st := Some ''Analysis failed. Please try again.'',
                    isAnalyzing_st := False\<rparr>, effs))"

text \<open>
  What \<^verbatim>\<open>LandingPage\<close> renders of the outcome: the error box under \<^verbatim>\<open>{error && (...)}\<close> and
  the verdict under \<^verbatim>\<open>{result && (...)}\<close>, which reads
  \<^verbatim>\<open>result.prediction === 'Phishing' ? "Phishing Detected" : "Legitimate URL"\<close>.
\<close>

datatype verdict = Phishing_Detected | Legitimate_URL

definition LandingPage_errorBox :: "'a LandingPage \<Rightarrow> string option" where
  "LandingPage_errorBox st =
     (case error_st st of None \<Rightarrow> None | Some msg \<Rightarrow> if msg = [] then None else Some msg)"

definition LandingPage_verdict :: "ClassificationResult LandingPage \<Rightarrow> verdict option" where
  "LandingPage_verdict st =
     (case result_st st of
        None \<Rightarrow> None
      | Some res \<Rightarrow> Some (if prediction res = ''Phishing'' then Phishing_Detected else Legitimate_URL))"

text \<open>
  The legacy dashboard, with \<open>input\<close> the value of the \<^verbatim>\<open>urlInput\<close> element:
  \<^verbatim>\<open>
  async function analyzeURL() {
      ...
      const url = urlInput.value.trim();
      if (!url) {
          alert('Please enter a URL to analyze');
          return;
      }
      ...
      try {
          const response = await fetch(`${API_BASE}/analyze-url`, {...});
          if (!response.ok) {
              throw new Error('Analysis failed');
          }
          const result = await response.json();
          confidenceDisplay.style.display = 'flex';
          const confidencePercent = (result.confidence * 100).toFixed(1);
          const confidenceLevel = result.confidence > 0.8 ? 'High' : result.confidence > 0.5 ? 'Medium' : 'Low';
          confidenceValue.textContent = `${confidencePercent}% (${confidenceLevel})`;
          if (result.prediction === 'Phishing') {
              ...
              showNotification(..., `Risk Score: ${result.risk_score}/100 | Threat Type: ${result.threat_type}`, 'critical');
          } else {
              ...
              showNotification(..., `Confidence: ${confidencePercent}%`, 'success');
          }
          setTimeout(() => { loadStatistics(); loadRecentThreats(); }, 500);
      } catch (error) {
          console.error('Analysis error:', error);
          showNotification(..., 'Please try again', 'error');
      } finally { ... }
  }
  \<close>
\<close>

definition analyzeURL ::
  "(request \<Rightarrow> js_error + ClassificationResult response) \<Rightarrow> string \<Rightarrow> effect list" where
  "analyzeURL fetch input =
     (let url = trim input
      in if url = [] then [Alert ''Please enter a URL to analyze'']
         else
           Fetch (analyzeRequest url) #
           (case fetch (analyzeRequest url) of
              Inl rejected \<Rightarrow> [ConsoleError rejected, ShowNotification AnalysisFailed]
            | Inr response \<Rightarrow>
                if \<not> ok response
                then [ConsoleError (Error ''Analysis failed''), ShowNotification AnalysisFailed]
                else
                  (case json response of
                     Inl err \<Rightarrow> [ConsoleError err, ShowNotification AnalysisFailed]
                   | Inr res \<Rightarrow>
                       (let confidencePercent =
                              toFixedN 1 (fmul (fl (confidence res)) (fl 100));
                            confidenceLevel =
                              (if fgt (fl (confidence res)) (fl (8 / 10)) then ''High''
                               else if fgt (fl (confidence res)) (fl (5 / 10)) then ''Medium''
                               else ''Low'')
                        in [SetTextContent ''confidenceValue''
                              [confidencePercent, Lit ''% ('', Lit confidenceLevel, Lit '')''],
                            ShowNotification
                              (if prediction res = ''Phishing''
                               then PhishingDetected (risk_score res) (threat_type res)
                               else AppearsLegitimate confidencePercent),
                            ScheduleRefresh]))))"

subsection \<open>The statistics endpoint\<close>

text \<open>
  The JSON object of \<^verbatim>\<open>GET /api/stats\<close> is a map from field names to values. A field is
  absent (reading it gives \<^verbatim>\<open>undefined\<close>, here \<open>None\<close>), a number, or an object of numbers
  with its keys in enumeration order. A number is given by its JSON literal: \<open>NumberV r\<close>
  is the double \<open>fl r\<close>, and so are the values of an object. The coercions are
  JavaScript's: an object is truthy, is \<^verbatim>\<open>NaN\<close> as a number and prints as
  \<^verbatim>\<open>[object Object]\<close>.
\<close>

datatype stat_value = NumberV rat | ObjectV "(string \<times> rat) list"

type_synonym stats_response = "string \<Rightarrow> stat_value option"

definition truthy :: "stat_value option \<Rightarrow> bool" where
  "truthy v =
     (case v of None \<Rightarrow> False | Some (NumberV r) \<Rightarrow> fl r \<noteq> Fin 0 | Some (ObjectV m) \<Rightarrow> True)"

definition toNumber :: "stat_value option \<Rightarrow> number" where
  "toNumber v = (case v of Some (NumberV r) \<Rightarrow> fl r | _ \<Rightarrow> NaN)"

definition toString :: "stat_value option \<Rightarrow> text_part" where
  "toString v =
     (case v of
        None \<Rightarrow> Lit ''undefined''
      | Some (NumberV r) \<Rightarrow> numberText (fl r)
      | Some (ObjectV m) \<Rightarrow> Lit ''[object Object]'')"

definition statsRequest :: request where
  "statsRequest = \<lparr>req_method = ''GET'', req_path = ''/api/stats'', req_url = []\<rparr>"

text \<open>
  Legacy dashboard:
  \<^verbatim>\<open>
  function formatNumber(num) {
      if (num >= 1000) {
          return (num / 1000).toFixed(1) + 'K';
      }
      return num.toString();
  }
  \<close>
\<close>

definition formatNumber :: "stat_value option \<Rightarrow> js_error + text_part list" where
  "formatNumber num =
     (case num of
        None \<Rightarrow> Inl TypeError
      | Some (NumberV r) \<Rightarrow>
          if fge (fl r) (fl 1000)
          then Inr [toFixedN 1 (fdiv (fl r) (fl 1000)), Lit ''K'']
          else Inr [numberText (fl r)]
      | Some (ObjectV m) \<Rightarrow> Inr [Lit ''[object Object]''])"

text \<open>
  \<^verbatim>\<open>
  function updateDonutChart(threatBreakdown) {
      if (!threatBreakdown || Object.keys(threatBreakdown).length === 0) {
          // Default data
          threatBreakdown = {
              'Brand Impersonation': 0.45,
              'Credential Harvesting': 0.32,
              'Malware Distribution': 0.15,
              'Social Engineering': 0.05,
              'Other / Unclassified': 0.03
          };
      }
      const labels = Object.keys(threatBreakdown);
      const data = Object.values(threatBreakdown);
      donutChart.data.labels = labels;
      donutChart.data.datasets[0].data = data;
      donutChart.update();
      updateDonutLegend(labels, data);
  }

  function updateDonutLegend(labels, data) {
      ...
      legendContainer.innerHTML = labels.map((label, index) => {
          const percentage = (data[index] * 100).toFixed(0);
          return `... ${label} ... ${percentage}% ...`;
      }).join('');
  }
  \<close>
  The colours of the legend are left out.
\<close>

definition defaultThreatBreakdown :: "(string \<times> number) list" where
  "defaultThreatBreakdown =
     [(''Brand Impersonation'', fl (45 / 100)),
      (''Credential Harvesting'', fl (32 / 100)),
      (''Malware Distribution'', fl (15 / 100)),
      (''Social Engineering'', fl (5 / 100)),
      (''Other / Unclassified'', fl (3 / 100))]"

definition updateDonutLegend :: "string list \<Rightarrow> number list \<Rightarrow> effect list" where
  "updateDonutLegend labels data =
     [SetLegend (map (\<lambda>(label, d). (label, [toFixedN 0 (fmul d (fl 100)), Lit ''%'']))
                  (zip labels data))]"

definition updateDonutChart :: "stat_value option \<Rightarrow> effect list" where
  "updateDonutChart threatBreakdown =
     (let breakdown =
        (case threatBreakdown of
           Some (ObjectV m) \<Rightarrow>
             if length (map fst m) = 0 then defaultThreatBreakdown
             else map (\<lambda>(label, v). (label, fl v)) m
         | _ \<Rightarrow> defaultThreatBreakdown);
        labels = map fst breakdown;
        data = map snd breakdown
      in UpdateDonut labels data # updateDonutLegend labels data)"

text \<open>
  \<^verbatim>\<open>
  async function loadStatistics() {
      try {
          const response = await fetch(`${API_BASE}/stats`);
          const data = await response.json();
          stats = data;
          document.getElementById('totalAnalyzed').textContent = formatNumber(data.total_analyzed);
          document.getElementById('accuracy').textContent = `${(data.detection_accuracy * 100).toFixed(0)}%`;
          document.getElementById('responseTime').textContent = `<${data.avg_response_time_ms}ms`;
          document.getElementById('todayCount').textContent = `+${formatNumber(data.today_count)} today`;
          document.getElementById('avgResponseTime').textContent = `Average ${data.avg_response_time_ms}ms`;
          updateDonutChart(data.threat_breakdown);
          createMiniCharts();
      } catch (error) {
          console.error('Failed to load statistics:', error);
      }
  }
  \<close>
  A throw in the middle leaves the earlier writes in place. The global \<^verbatim>\<open>stats\<close>, which
  nothing reads, is left out.
\<close>

definition loadStatistics ::
  "(request \<Rightarrow> js_error + stats_response response) \<Rightarrow> effect list" where
  "loadStatistics fetch =
     Fetch statsRequest #
     (case fetch statsRequest of
        Inl rejected \<Rightarrow> [ConsoleError rejected]
      | Inr response \<Rightarrow>
          (case json response of
             Inl err \<Rightarrow> [ConsoleError err]
           | Inr data \<Rightarrow>
               (case formatNumber (data ''total_analyzed'') of
                  Inl err \<Rightarrow> [ConsoleError err]
                | Inr totalText \<Rightarrow>
                    [SetTextContent ''totalAnalyzed'' totalText,
                     SetTextContent ''accuracy''
                       [toFixedN 0 (fmul (toNumber (data ''detection_accuracy'')) (fl 100)),
                        Lit ''%''],
                     SetTextContent ''responseTime''
                       [Lit ''<'', toString (data ''avg_response_time_ms''), Lit ''ms'']] @
                    (case formatNumber (data ''today_count'') of
                       Inl err \<Rightarrow> [ConsoleError err]
                     | Inr todayText \<Rightarrow>
                         [SetTextContent ''todayCount'' ([Lit ''+''] @ todayText @ [Lit '' today'']),
                          SetTextContent ''avgResponseTime''
                            [Lit ''Average '', toString (data ''avg_response_time_ms''), Lit ''ms'']] @
                         updateDonutChart (data ''threat_breakdown'') @
                         [CreateMiniCharts]))))"

text \<open>
  The overview tab of the React \<^verbatim>\<open>Dashboard\<close>, with \<open>stats\<close> the \<^verbatim>\<open>useState\<close> variable
  (\<^verbatim>\<open>null\<close> until the first reply). The four cards:
  \<^verbatim>\<open>
  { label: 'Total Analyzed', value: stats?.total_analyzed || 0, trend: `+${stats?.today_count || 0}`, ... },
  { label: 'Phishing Detected', value: stats?.phishing_detected || 0, trend: 'Critical', ... },
  { label: 'Accuracy', value: `${((stats?.detection_accuracy || 0) * 100).toFixed(0)}%`, trend: 'Stable', ... },
  { label: 'Avg Latency', value: `${stats?.avg_response_time_ms?.toFixed(0) || 0}ms`, trend: 'Optimal', ... }
  \<close>
  A card's value is the JavaScript value handed to React (\<open>Value\<close>) or a template string
  (\<open>Text\<close>). \<open>optField stats name\<close> is \<^verbatim>\<open>stats?.name\<close> and \<open>orZero v\<close> is \<^verbatim>\<open>v || 0\<close>.
  \<^verbatim>\<open>toFixed\<close> called on an object is a \<^verbatim>\<open>TypeError\<close>. The colours of the cards are left out.
\<close>

datatype card_value = Value stat_value | Text "text_part list"

definition optField :: "stats_response option \<Rightarrow> string \<Rightarrow> stat_value option" where
  "optField stats name = (case stats of None \<Rightarrow> None | Some s \<Rightarrow> s name)"

definition orZero :: "stat_value option \<Rightarrow> stat_value" where
  "orZero v = (case v of None \<Rightarrow> NumberV 0 | Some x \<Rightarrow> if truthy v then x else NumberV 0)"

definition Dashboard_statCards ::
  "stats_response option \<Rightarrow> js_error + (string \<times> card_value \<times> text_part list) list" where
  "Dashboard_statCards stats =
     (case
        (case optField stats ''avg_response_time_ms'' of
           None \<Rightarrow> Inr (numberText (fl 0))
         | Some (NumberV r) \<Rightarrow> Inr (toFixedN 0 (fl r))
         | Some (ObjectV m) \<Rightarrow> Inl TypeError)
      of
        Inl err \<Rightarrow> Inl err
      | Inr latency \<Rightarrow>
          Inr [(''Total Analyzed'', Value (orZero (optField stats ''total_analyzed'')),
                [Lit ''+'', toString (Some (orZero (optField stats ''today_count'')))]),
               (''Phishing Detected'', Value (orZero (optField stats ''phishing_detected'')),
                [Lit ''Critical'']),
               (''Accuracy'',
                Text [toFixedN 0
                        (fmul (toNumber (Some (orZero (optField stats ''detection_accuracy''))))
                           (fl 100)),
                      Lit ''%''],
                [Lit ''Stable'']),
               (''Avg Latency'', Text [latency, Lit ''ms''], [Lit ''Optimal''])])"

text \<open>
  The threat breakdown of the overview tab:
  \<^verbatim>\<open>
  const getThreatData = (breakdown) => {
      if (!breakdown) return [];
      return Object.entries(breakdown).map(([name, value]) => ({ name, value }));
  };
  ...
  <span ...>{stats?.phishing_detected || 0}</span>
  ...
  {getThreatData(stats?.threat_breakdown).map((entry, index) => (
      ... <span ...>{entry.name}</span> ...
      <span ...>{((entry.value / (Object.values(stats?.threat_breakdown || {}).reduce((a, b) => a + b, 1))) * 100).toFixed(0)}%</span>
  ))}
  \<close>
\<close>

definition getThreatData :: "stat_value option \<Rightarrow> (string \<times> number) list" where
  "getThreatData breakdown =
     (if \<not> truthy breakdown then []
      else case breakdown of Some (ObjectV m) \<Rightarrow> map (\<lambda>(name, v). (name, fl v)) m | _ \<Rightarrow> [])"

definition breakdownTotal :: "stat_value option \<Rightarrow> number" where
  "breakdownTotal breakdown =
     foldl (\<lambda>a b. fadd a b) (fl 1)
       (case breakdown of Some (ObjectV m) \<Rightarrow> map (\<lambda>(name, v). fl v) m | _ \<Rightarrow> [])"

definition legendPercentage :: "number \<Rightarrow> number \<Rightarrow> text_part" where
  "legendPercentage v denominator = toFixedN 0 (fmul (fdiv v denominator) (fl 100))"

definition Dashboard_legend :: "stats_response option \<Rightarrow> (string \<times> text_part list) list" where
  "Dashboard_legend stats =
     map (\<lambda>(name, v).
            (name, [legendPercentage v (breakdownTotal (optField stats ''threat_breakdown'')),
                    Lit ''%'']))
         (getThreatData (optField stats ''threat_breakdown''))"

record overview =
  cards :: "js_error + (string \<times> card_value \<times> text_part list) list"
  pie :: "(string \<times> number) list"
  totalThreats :: stat_value
  legend :: "(string \<times> text_part list) list"

definition Dashboard_overview :: "stats_response option \<Rightarrow> overview" where
  "Dashboard_overview stats =
     \<lparr>cards = Dashboard_statCards stats,
      pie = getThreatData (optField stats ''threat_breakdown''),
      totalThreats = orZero (optField stats ''phishing_detected''),
      legend = Dashboard_legend stats\<rparr>"

text \<open>
  The integer a percentage of the legend shows.
\<close>

definition shownInteger :: "text_part \<Rightarrow> int" where
  "shownInteger t =
     (case t of FixedText neg d n \<Rightarrow> (if neg then - int n else int n) | _ \<Rightarrow> 0)"

definition legendShown :: "stats_response option \<Rightarrow> int list" where
  "legendShown stats = map (\<lambda>(name, parts). shownInteger (hd parts)) (Dashboard_legend stats)"

text \<open>
  The fields of the statistics reply and the closed taxonomy of threat types, as the
  specification enumerates them.
\<close>

definition spec_stats_fields :: "string list" where
  "spec_stats_fields =
     [''total_analyzed'', ''phishing_detected'', ''detection_accuracy'',
      ''avg_response_time_ms'', ''today_count'', ''threat_breakdown'']"

definition spec_ThreatTypeTaxonomy :: "string list" where
  "spec_ThreatTypeTaxonomy =
     [''Brand Impersonation'', ''Credential Harvesting'', ''Malware Distribution'',
      ''Social Engineering'', ''Other/Unclassified'']"

subsection \<open>Domains of the threat table\<close>

text \<open>
  Legacy dashboard. The argument is the \<^verbatim>\<open>url\<close> field of a threat record: a string, or
  \<^verbatim>\<open>undefined\<close> (\<open>None\<close>) when the record has none. The constructor \<^verbatim>\<open>new URL(...)\<close> of the
  browser is a parameter: it returns the parsed URL or throws.
  \<^verbatim>\<open>
  function extractDomain(url) {
      try {
          const urlObj = new URL(url.startsWith('http') ? url : 'http://' + url);
          return urlObj.hostname;
      } catch {
          return url.substring(0, 30) + '...';
      }
  }
  \<close>
  On \<^verbatim>\<open>undefined\<close> the call \<^verbatim>\<open>url.startsWith\<close> throws inside \<^verbatim>\<open>try\<close> and \<^verbatim>\<open>url.substring\<close> throws
  again inside \<^verbatim>\<open>catch\<close>.
\<close>

record URL =
  hostname :: string

definition extractDomain :: "(string \<Rightarrow> js_error + URL) \<Rightarrow> string option \<Rightarrow> js_error + string" where
  "extractDomain newURL url =
     (case url of
        None \<Rightarrow> Inl TypeError
      | Some u \<Rightarrow>
          (case newURL (if startsWith u ''http'' then u else ''http://'' @ u) of
             Inr urlObj \<Rightarrow> Inr (hostname urlObj)
           | Inl thrown \<Rightarrow> Inr (substring u 0 30 @ ''...'')))"

subsection \<open>The Supabase client and the protected route\<close>

text \<open>
  \<^verbatim>\<open>
  const supabaseUrl = import.meta.env.VITE_SUPABASE_URL;
  const supabaseAnonKey = import.meta.env.VITE_SUPABASE_ANON_KEY;
  const isSupabaseConfigured = supabaseUrl && supabaseUrl.startsWith('https://') && supabaseAnonKey;
  export const supabase = isSupabaseConfigured
      ? createClient(supabaseUrl, supabaseAnonKey)
      : {
          auth: {
              getSession: async () => ({ data: { session: null } }),
              onAuthStateChange: () => ({ data: { subscription: { unsubscribe: () => { } } } }),
              signOut: async () => { },
              signInWithPassword: async () => { throw new Error('Supabase not configured') },
              signUp: async () => { throw new Error('Supabase not configured') },
          }
      };
  \<close>
  An environment variable is a string or absent (\<open>None\<close>); the empty string is falsy.

  The \<^verbatim>\<open>auth\<close> object is a record of what its methods do: the session \<^verbatim>\<open>getSession\<close>
  resolves with, the sessions with which the client later calls the callback given to
  \<^verbatim>\<open>onAuthStateChange\<close>, and for \<^verbatim>\<open>signInWithPassword\<close> and \<^verbatim>\<open>signUp\<close> the error thrown (\<open>Inl\<close>)
  or the \<^verbatim>\<open>error\<close> field of the reply (\<open>Inr\<close>). \<^verbatim>\<open>createClient\<close> of the Supabase library is a
  parameter.
\<close>

record env =
  VITE_SUPABASE_URL :: "string option"
  VITE_SUPABASE_ANON_KEY :: "string option"

record ('s, 'c) auth =
  getSession :: "'s option"
  onAuthStateChange :: "'s option list"
  signInWithPassword :: "'c \<Rightarrow> js_error + js_error option"
  signUp :: "'c \<Rightarrow> js_error + js_error option"

definition isSupabaseConfigured :: "env \<Rightarrow> bool" where
  "isSupabaseConfigured e =
     (case VITE_SUPABASE_URL e of
        None \<Rightarrow> False
      | Some supabaseUrl \<Rightarrow>
          supabaseUrl \<noteq> [] \<and> startsWith supabaseUrl ''https://'' \<and>
          (case VITE_SUPABASE_ANON_KEY e of
             None \<Rightarrow> False
           | Some supabaseAnonKey \<Rightarrow> supabaseAnonKey \<noteq> []))"

definition stub_auth :: "('s, 'c) auth" where
  "stub_auth =
     \<lparr>getSession = None,
      onAuthStateChange = [],
      signInWithPassword = (\<lambda>credentials. Inl (Error ''Supabase not configured'')),
      signUp = (\<lambda>credentials. Inl (Error ''Supabase not configured''))\<rparr>"

definition supabase :: "(string \<Rightarrow> string \<Rightarrow> ('s, 'c) auth) \<Rightarrow> env \<Rightarrow> ('s, 'c) auth" where
  "supabase createClient e =
     (case (VITE_SUPABASE_URL e, VITE_SUPABASE_ANON_KEY e) of
        (Some supabaseUrl, Some supabaseAnonKey) \<Rightarrow>
          if isSupabaseConfigured e then createClient supabaseUrl supabaseAnonKey else stub_auth
      | _ \<Rightarrow> stub_auth)"

text \<open>
  \<^verbatim>\<open>
  const ProtectedRoute = ({ children }) => {
    const [session, setSession] = useState(null)
    const [loading, setLoading] = useState(true)
    useEffect(() => {
      supabase.auth.getSession().then(({ data: { session } }) => {
        setSession(session)
        setLoading(false)
      })
      const { data: { subscription } } = supabase.auth.onAuthStateChange((_event, session) => {
        setSession(session)
      })
      return () => subscription.unsubscribe()
    }, [])
    if (loading) return <div ...spinner... />
    if (!session) return <Navigate to="/login" replace />
    return children
  }
  \<close>
  The component is a state machine: its state is the two \<^verbatim>\<open>useState\<close> variables, an event
  is the resolution of the \<^verbatim>\<open>getSession\<close> promise or a call of the callback. After
  mounting, the promise resolves once, at some position \<open>k\<close> among the calls of the
  callback; \<open>ProtectedRoute_run a k n\<close> is the state after the first \<open>n\<close> events. Once
  the component has rendered \<^verbatim>\<open>Navigate\<close> the route changes and the component is unmounted:
  it unsubscribes, and later events no longer change its state.
\<close>

record 's ProtectedRoute =
  session_st :: "'s option"
  loading_st :: bool

datatype 's auth_event = SessionResolved "'s option" | AuthStateChanged "'s option"

datatype view = Spinner | Navigate string | Children

definition ProtectedRoute_mount :: "'s ProtectedRoute" where
  "ProtectedRoute_mount = \<lparr>session_st = None, loading_st = True\<rparr>"

definition ProtectedRoute_render :: "'s ProtectedRoute \<Rightarrow> view" where
  "ProtectedRoute_render st =
     (if loading_st st then Spinner
      else if session_st st = None then Navigate ''/login''
      else Children)"

fun ProtectedRoute_step :: "'s ProtectedRoute \<Rightarrow> 's auth_event \<Rightarrow> 's ProtectedRoute" where
  "ProtectedRoute_step st (SessionResolved s) =
     (if ProtectedRoute_render st = Navigate ''/login'' then st
      else st\<lparr>session_st := s, loading_st := False\<rparr>)"
| "ProtectedRoute_step st (AuthStateChanged s) =
     (if ProtectedRoute_render st = Navigate ''/login'' then st
      else st\<lparr>session_st := s\<rparr>)"

definition ProtectedRoute_events :: "('s, 'c) auth \<Rightarrow> nat \<Rightarrow> 's auth_event list" where
  "ProtectedRoute_events a k =
     (let calls = map AuthStateChanged (onAuthStateChange a)
      in take k calls @ [SessionResolved (getSession a)] @ drop k calls)"

definition ProtectedRoute_run :: "('s, 'c) auth \<Rightarrow> nat \<Rightarrow> nat \<Rightarrow> 's ProtectedRoute" where
  "ProtectedRoute_run a k n =
     foldl ProtectedRoute_step ProtectedRoute_mount (take n (ProtectedRoute_events a k))"

subsection \<open>Threat-type attribution of the service\<close>

text \<open>
  Modelled from the spec: the verdict and the taxonomy of the analysis service, whose code
  is not among the sources. \<^verbatim>\<open>ClassificationResult: { prediction: Phishing|Legitimate, ...,
  threat_type: one of a closed taxonomy or null, ... }\<close>; \<^verbatim>\<open>ThreatTypeTaxonomy: closed enum
  {Brand Impersonation, Credential Harvesting, Malware Distribution, Social Engineering,
  Other/Unclassified}\<close>.
\<close>

datatype Prediction = Phishing | Legitimate

datatype ThreatType =
    Brand_Impersonation
  | Credential_Harvesting
  | Malware_Distribution
  | Social_Engineering
  | Other_Unclassified

text \<open>
  Modelled from the spec: the names of the predictions and of the taxonomy members in the
  JSON reply.
\<close>

fun Prediction_name :: "Prediction \<Rightarrow> string" where
  "Prediction_name Phishing = ''Phishing''"
| "Prediction_name Legitimate = ''Legitimate''"

fun ThreatType_name :: "ThreatType \<Rightarrow> string" where
  "ThreatType_name Brand_Impersonation = ''Brand Impersonation''"
| "ThreatType_name Credential_Harvesting = ''Credential Harvesting''"
| "ThreatType_name Malware_Distribution = ''Malware Distribution''"
| "ThreatType_name Social_Engineering = ''Social Engineering''"
| "ThreatType_name Other_Unclassified = ''Other/Unclassified''"

text \<open>
  Modelled from the spec: the lexical signals of the FeatureVector that the
  ThreatTypeClassifier reads (the FeatureExtractor is not among the sources). ``A
  known-brand token is matched in the host or path''; ``login/verification-form-style
  lexical tokens dominate''; malware distribution and social engineering ``are selected via
  their own token sets''.
\<close>

record attribution_signals =
  brand_token_matched :: bool
  credential_tokens_dominate :: bool
  malware_tokens_matched :: bool
  social_tokens_matched :: bool

text \<open>
  Modelled from the spec: the ThreatTypeClassifier (section 4.5; the service's code is not
  among the sources). ``Brand-impersonation is selected when a known-brand token is
  matched in the host or path; credential-harvesting is selected when
  login/verification-form-style lexical tokens dominate without a brand match;
  malware-distribution/social-engineering are selected via their own token sets;
  Other/Unclassified is the default when confidence is below a minimum attribution
  threshold (suggested 0.6) or no rule matches.'' The matchers are tried ``in a fixed
  priority order, falling through to Other/Unclassified''.
\<close>

definition ThreatTypeClassifier :: "rat \<Rightarrow> attribution_signals \<Rightarrow> rat \<Rightarrow> ThreatType" where
  "ThreatTypeClassifier min_attribution f conf =
     (if conf < min_attribution then Other_Unclassified
      else if brand_token_matched f then Brand_Impersonation
      else if credential_tokens_dominate f then Credential_Harvesting
      else if malware_tokens_matched f then Malware_Distribution
      else if social_tokens_matched f then Social_Engineering
      else Other_Unclassified)"

text \<open>
  Modelled from the spec: the Attributing and Complete stages of the AnalysisPipeline
  (sections 4.5 and 4.6; the service's code is not among the sources). The
  ThreatTypeClassifier is ``invoked only when prediction = Phishing''; ``a Legitimate result
  always carries threat_type = null''. The verdict, the calibrated confidence and the risk
  score come from the earlier stages.
\<close>

definition AnalysisPipeline_complete ::
  "rat \<Rightarrow> Prediction \<Rightarrow> rat \<Rightarrow> int \<Rightarrow> attribution_signals \<Rightarrow> string \<Rightarrow> ClassificationResult" where
  "AnalysisPipeline_complete min_attribution verdict conf risk f now =
     \<lparr>prediction = Prediction_name verdict,
      confidence = conf,
      risk_score = risk,
      threat_type =
        (case verdict of
           Phishing \<Rightarrow> Some (ThreatType_name (ThreatTypeClassifier min_attribution f conf))
         | Legitimate \<Rightarrow> None),
      timestamp = now\<rparr>"

section \<open>Severity bucketing\<close>

text \<open>
  Claim C1. For every integer risk score between 0 and 100, \<^verbatim>\<open>getSeverity\<close> answers
  Critical exactly from 76 up, High exactly from 51 to 75, Medium exactly from 26 to 50 and
  Low otherwise; at the boundaries, 76 is Critical, 75 and 51 are High, 50 and 26 are
  Medium and 25 is Low. (The function spells the four buckets in capitals.)
\<close>

theorem getSeverity_staircase:
  "0 \<le> r \<Longrightarrow> r \<le> 100 \<Longrightarrow>
     (getSeverity r = ''CRITICAL'') = (76 \<le> r) \<and>
     (getSeverity r = ''HIGH'') = (51 \<le> r \<and> r \<le> 75) \<and>
     (getSeverity r = ''MEDIUM'') = (26 \<le> r \<and> r \<le> 50) \<and>
     (getSeverity r = ''LOW'') = (r \<le> 25) \<and>
     getSeverity 76 = ''CRITICAL'' \<and> getSeverity 75 = ''HIGH'' \<and>
     getSeverity 51 = ''HIGH'' \<and> getSeverity 50 = ''MEDIUM'' \<and>
     getSeverity 26 = ''MEDIUM'' \<and> getSeverity 25 = ''LOW''"
  by (simp add: getSeverity_def)

theorem getSeverity_staircase_witness:
  "(0::int) \<le> 60 \<and> (60::int) \<le> 100 \<and> getSeverity 60 = ''HIGH'' \<and>
   getSeverity 60 \<noteq> ''CRITICAL'' \<and> getSeverity 25 = ''LOW''"
  using getSeverity_staircase [of 60] by simp

text \<open>
  Claim C2, as stated: the bucket of \<^verbatim>\<open>getSeverity\<close> and the band of the React views'
  risk-score colouring agree on every score between 0 and 100. They do not. Scores 30 and
  31 share a severity bucket and get different colours; scores 25 and 26 share a colour
  and get different buckets; score 71 is coloured critical while its bucket is High.
\<close>

theorem severity_riskClass_disagree:
  "getSeverity 30 = getSeverity 31 \<and> LandingPage_riskClass 30 \<noteq> LandingPage_riskClass 31 \<and>
   Dashboard_riskClass 30 \<noteq> Dashboard_riskClass 31 \<and>
   LandingPage_riskClass 25 = LandingPage_riskClass 26 \<and> getSeverity 25 \<noteq> getSeverity 26 \<and>
   LandingPage_riskClass 71 = ''text-critical'' \<and> Dashboard_riskClass 71 = ''text-critical'' \<and>
   getSeverity 71 = ''HIGH''"
  by (simp add: getSeverity_def LandingPage_riskClass_def Dashboard_riskClass_def)

text \<open>
  Claim C2, amended. The React result views use a staircase of their own, with three
  bands and the thresholds 31 and 71: a score is coloured critical exactly from 71 up,
  warning exactly from 31 to 70, success otherwise, and the two views colour alike. On
  scores between 0 and 100 they meet \<^verbatim>\<open>getSeverity\<close> at the two ends only: every
  Critical score is coloured critical, every Low score is coloured success.
\<close>

theorem riskClass_staircase:
  "0 \<le> r \<Longrightarrow> r \<le> 100 \<Longrightarrow>
     Dashboard_riskClass r = LandingPage_riskClass r \<and>
     (LandingPage_riskClass r = ''text-critical'') = (71 \<le> r) \<and>
     (LandingPage_riskClass r = ''text-warning'') = (31 \<le> r \<and> r \<le> 70) \<and>
     (LandingPage_riskClass r = ''text-success'') = (r \<le> 30) \<and>
     (getSeverity r = ''CRITICAL'' \<longrightarrow> LandingPage_riskClass r = ''text-critical'') \<and>
     (getSeverity r = ''LOW'' \<longrightarrow> LandingPage_riskClass r = ''text-success'')"
  by (simp add: getSeverity_def LandingPage_riskClass_def Dashboard_riskClass_def)

theorem riskClass_staircase_witness:
  "(0::int) \<le> 80 \<and> (80::int) \<le> 100 \<and> getSeverity 80 = ''CRITICAL'' \<and>
   LandingPage_riskClass 80 = ''text-critical'' \<and> Dashboard_riskClass 80 = ''text-critical''"
  using riskClass_staircase [of 80] by (simp add: getSeverity_def)

section \<open>Requests of the analyze operation\<close>

lemma all_dropWhile: "(\<forall>x\<in>set (dropWhile P s). P x) = (\<forall>x\<in>set s. P x)"
  by (induction s) auto

lemma trim_empty_iff: "(trim s = []) = list_all isWhiteSpace s"
  by (simp add: trim_def list_all_iff all_dropWhile)

lemma requests_analyzeURL:
  "requests (analyzeURL fetch input) =
     (if trim input = [] then [] else [analyzeRequest (trim input)])"
  by (simp add: analyzeURL_def requests_def Let_def split: sum.splits)

lemma requests_api_analyzeUrl:
  "requests (snd (api_analyzeUrl fetch url)) = [analyzeRequest url]"
  by (simp add: api_analyzeUrl_def requests_def Let_def split: sum.splits)

lemma requests_handleAnalyze:
  "requests (snd (handleAnalyze fetch st)) =
     (if url_st st = [] then [] else [analyzeRequest (url_st st)])"
  using requests_api_analyzeUrl [of fetch "url_st st"]
  by (auto simp: handleAnalyze_def requests_def Let_def split: sum.splits prod.splits)

text \<open>
  Claim C3, as stated: for every input that is empty or only white space, the analyze
  operation sends no request to \<^verbatim>\<open>/api/analyze-url\<close>. The React \<^verbatim>\<open>handleAnalyze\<close> tests
  \<^verbatim>\<open>!url\<close> without trimming: with a single blank in the \<^verbatim>\<open>url\<close> state it sends the request
  (here to a network that rejects it).
\<close>

theorem handleAnalyze_blank_sends_request:
  "list_all isWhiteSpace '' '' \<and>
   requests (snd (handleAnalyze (\<lambda>r. Inl TypeError :: js_error + ClassificationResult response)
      \<lparr>url_st = '' '', isAnalyzing_st = False, result_st = None, error_st = None\<rparr>))
    = [analyzeRequest '' '']"
  by (simp add: requests_handleAnalyze isWhiteSpace_def)

text \<open>
  Claim C3, amended. The legacy \<^verbatim>\<open>analyzeURL\<close> sends no request exactly when its input
  is empty or only white space, and then does nothing but raise the alert. The React
  \<^verbatim>\<open>handleAnalyze\<close> sends no request exactly when the \<^verbatim>\<open>url\<close> state is the empty string,
  and then leaves the state as it is; a \<^verbatim>\<open>url\<close> state of white space only is sent to the
  service like any other.
\<close>

theorem analyze_no_request_iff:
  "(requests (analyzeURL fetch input) = []) = list_all isWhiteSpace input \<and>
   (list_all isWhiteSpace input \<longrightarrow>
      analyzeURL fetch input = [Alert ''Please enter a URL to analyze'']) \<and>
   (requests (snd (handleAnalyze fetch' st)) = []) = (url_st st = []) \<and>
   (url_st st = [] \<longrightarrow> handleAnalyze fetch' st = (st, []))"
proof (intro conjI)
  show "(requests (analyzeURL fetch input) = []) = list_all isWhiteSpace input"
    by (simp add: requests_analyzeURL trim_empty_iff)
  show "list_all isWhiteSpace input \<longrightarrow>
      analyzeURL fetch input = [Alert ''Please enter a URL to analyze'']"
    by (simp add: analyzeURL_def trim_empty_iff)
  show "(requests (snd (handleAnalyze fetch' st)) = []) = (url_st st = [])"
    by (simp add: requests_handleAnalyze)
  show "url_st st = [] \<longrightarrow> handleAnalyze fetch' st = (st, [])"
    by (simp add: handleAnalyze_def)
qed

theorem analyze_no_request_iff_witness:
  "list_all isWhiteSpace [CHR '' '', CHR 0x09, CHR '' ''] \<and>
   analyzeURL (\<lambda>r. Inl TypeError) [CHR '' '', CHR 0x09, CHR '' '']
     = [Alert ''Please enter a URL to analyze''] \<and>
   handleAnalyze (\<lambda>r. Inl TypeError :: js_error + ClassificationResult response)
      \<lparr>url_st = [], isAnalyzing_st = False, result_st = None, error_st = None\<rparr>
     = (\<lparr>url_st = [], isAnalyzing_st = False, result_st = None, error_st = None\<rparr>, [])"
  using analyze_no_request_iff [of "\<lambda>r. Inl TypeError" "[CHR '' '', CHR 0x09, CHR '' '']"
      "\<lambda>r. Inl TypeError :: js_error + ClassificationResult response"
      "\<lparr>url_st = [], isAnalyzing_st = False, result_st = None, error_st = None\<rparr>"]
  by (simp add: isWhiteSpace_def)

section \<open>Failed analyses\<close>

text \<open>
  Claim C4. When the reply to \<^verbatim>\<open>POST /api/analyze-url\<close> is not ok, \<^verbatim>\<open>api.analyzeUrl\<close>
  throws and returns no value; \<^verbatim>\<open>handleAnalyze\<close> then ends with a null result and
  an error message, so the page shows the error and no verdict, neither Legitimate nor
  Phishing.
\<close>

theorem analyzeUrl_not_ok:
  "fetch (analyzeRequest (url_st st)) = Inr response \<Longrightarrow> \<not> ok response \<Longrightarrow>
   url_st st \<noteq> [] \<Longrightarrow>
     fst (api_analyzeUrl fetch (url_st st)) = Inl (Error ''Analysis failed'') \<and>
     result_st (fst (handleAnalyze fetch st)) = None \<and>
     error_st (fst (handleAnalyze fetch st)) = Some ''Analysis failed. Please try again.'' \<and>
     isAnalyzing_st (fst (handleAnalyze fetch st)) = False \<and>
     LandingPage_verdict (fst (handleAnalyze fetch st)) = None \<and>
     LandingPage_errorBox (fst (handleAnalyze fetch st))
       = Some ''Analysis failed. Please try again.''"
  by (simp add: api_analyzeUrl_def handleAnalyze_def LandingPage_verdict_def
      LandingPage_errorBox_def)

theorem analyzeUrl_not_ok_witness:
  "\<not> ok \<lparr>ok = False,
          json = Inr \<lparr>prediction = ''Legitimate'', confidence = 9 / 10, risk_score = 5,
                      threat_type = None, timestamp = ''t''\<rparr>\<rparr> \<and>
   ''http://example.com'' \<noteq> [] \<and>
   LandingPage_verdict (fst (handleAnalyze
      (\<lambda>r. Inr \<lparr>ok = False,
          json = Inr \<lparr>prediction = ''Legitimate'', confidence = 9 / 10, risk_score = 5,
                      threat_type = None, timestamp = ''t''\<rparr>\<rparr>)
      \<lparr>url_st = ''http://example.com'', isAnalyzing_st = False,
        result_st = Some \<lparr>prediction = ''Phishing'', confidence = 8 / 10, risk_score = 90,
                      threat_type = Some ''Brand Impersonation'', timestamp = ''s''\<rparr>,
        error_st = None\<rparr>)) = None \<and>
   LandingPage_errorBox (fst (handleAnalyze
      (\<lambda>r. Inr \<lparr>ok = False,
          json = Inr \<lparr>prediction = ''Legitimate'', confidence = 9 / 10, risk_score = 5,
                      threat_type = None, timestamp = ''t''\<rparr>\<rparr>)
      \<lparr>url_st = ''http://example.com'', isAnalyzing_st = False,
        result_st = Some \<lparr>prediction = ''Phishing'', confidence = 8 / 10, risk_score = 90,
                      threat_type = Some ''Brand Impersonation'', timestamp = ''s''\<rparr>,
        error_st = None\<rparr>)) = Some ''Analysis failed. Please try again.''"
  using analyzeUrl_not_ok
    [of "\<lambda>r. Inr \<lparr>ok = False,
          json = Inr \<lparr>prediction = ''Legitimate'', confidence = 9 / 10, risk_score = 5,
                      threat_type = None, timestamp = ''t''\<rparr>\<rparr>"
        "\<lparr>url_st = ''http://example.com'', isAnalyzing_st = False,
        result_st = Some \<lparr>prediction = ''Phishing'', confidence = 8 / 10, risk_score = 90,
                      threat_type = Some ''Brand Impersonation'', timestamp = ''s''\<rparr>,
        error_st = None\<rparr>"
        "\<lparr>ok = False,
          json = Inr \<lparr>prediction = ''Legitimate'', confidence = 9 / 10, risk_score = 5,
                      threat_type = None, timestamp = ''t''\<rparr>\<rparr>"]
  by simp

section \<open>Threat types\<close>

text \<open>
  Claim C5. In every ClassificationResult the analysis produces, \<^verbatim>\<open>threat_type\<close> is null
  if and only if the prediction is Legitimate: a Legitimate result carries no threat type,
  a Phishing result carries a label of the taxonomy. The service that produces the result
  is not among the sources; the statement is about its model after the specification.
\<close>

theorem threat_type_null_iff_legitimate:
  "(threat_type (AnalysisPipeline_complete m v c r f t) = None)
     = (prediction (AnalysisPipeline_complete m v c r f t) = ''Legitimate'') \<and>
   (v = Legitimate \<longrightarrow> threat_type (AnalysisPipeline_complete m v c r f t) = None) \<and>
   (v = Phishing \<longrightarrow>
      prediction (AnalysisPipeline_complete m v c r f t) = ''Phishing'' \<and>
      (\<exists>l. l \<in> set spec_ThreatTypeTaxonomy \<and>
           threat_type (AnalysisPipeline_complete m v c r f t) = Some l))"
proof (cases v)
  case Phishing
  have "ThreatType_name x \<in> set spec_ThreatTypeTaxonomy" for x
    by (cases x) (simp_all add: spec_ThreatTypeTaxonomy_def)
  with Phishing show ?thesis
    by (simp add: AnalysisPipeline_complete_def)
next
  case Legitimate
  then show ?thesis
    by (simp add: AnalysisPipeline_complete_def)
qed

theorem threat_type_null_iff_legitimate_witness:
  "threat_type (AnalysisPipeline_complete (6 / 10) Legitimate (97 / 100) 4
      \<lparr>brand_token_matched = True, credential_tokens_dominate = False,
        malware_tokens_matched = False, social_tokens_matched = False\<rparr> ''t'') = None \<and>
   threat_type (AnalysisPipeline_complete (6 / 10) Phishing (97 / 100) 92
      \<lparr>brand_token_matched = True, credential_tokens_dominate = False,
        malware_tokens_matched = False, social_tokens_matched = False\<rparr> ''t'')
     = Some ''Brand Impersonation''"
  using threat_type_null_iff_legitimate [of "6 / 10" Legitimate "97 / 100" 4
      "\<lparr>brand_token_matched = True, credential_tokens_dominate = False,
        malware_tokens_matched = False, social_tokens_matched = False\<rparr>" "''t''"]
    threat_type_null_iff_legitimate [of "6 / 10" Phishing "97 / 100" 92
      "\<lparr>brand_token_matched = True, credential_tokens_dominate = False,
        malware_tokens_matched = False, social_tokens_matched = False\<rparr>" "''t''"]
  by (simp add: AnalysisPipeline_complete_def ThreatTypeClassifier_def)

text \<open>
  Claim C6, as stated: the five labels of the default breakdown in \<^verbatim>\<open>updateDonutChart\<close>
  are exactly the members of the taxonomy. The fifth label is written
  \<^verbatim>\<open>'Other / Unclassified'\<close>, with blanks around the slash; the taxonomy has no such
  member. The chart drawn for a missing breakdown carries that label.
\<close>

theorem default_labels_not_taxonomy:
  "''Other / Unclassified'' \<in> set (map fst defaultThreatBreakdown) \<and>
   ''Other / Unclassified'' \<notin> set spec_ThreatTypeTaxonomy \<and>
   hd (updateDonutChart None)
     = UpdateDonut (map fst defaultThreatBreakdown) (map snd defaultThreatBreakdown)"
  by (simp add: defaultThreatBreakdown_def spec_ThreatTypeTaxonomy_def updateDonutChart_def
      Let_def)

text \<open>
  Claim C6, amended. The default breakdown of \<^verbatim>\<open>updateDonutChart\<close> has five labels: the
  first four are the first four members of the taxonomy as written, the fifth is
  \<^verbatim>\<open>'Other / Unclassified'\<close>; with the blanks removed the five labels are the five members
  of the taxonomy, in the same order. These are the labels of the chart and of the legend
  when the reply has no breakdown.
\<close>

theorem default_labels_taxonomy_up_to_blanks:
  "map fst defaultThreatBreakdown =
     [''Brand Impersonation'', ''Credential Harvesting'', ''Malware Distribution'',
      ''Social Engineering'', ''Other / Unclassified''] \<and>
   take 4 (map fst defaultThreatBreakdown) = take 4 spec_ThreatTypeTaxonomy \<and>
   map (filter (\<lambda>c. c \<noteq> CHR '' '')) (map fst defaultThreatBreakdown)
     = map (filter (\<lambda>c. c \<noteq> CHR '' '')) spec_ThreatTypeTaxonomy \<and>
   updateDonutChart None =
     UpdateDonut (map fst defaultThreatBreakdown) (map snd defaultThreatBreakdown) #
     updateDonutLegend (map fst defaultThreatBreakdown) (map snd defaultThreatBreakdown)"
  by (simp add: defaultThreatBreakdown_def spec_ThreatTypeTaxonomy_def updateDonutChart_def
      Let_def)

section \<open>Domains\<close>

text \<open>
  Claim C9. On every string \<^verbatim>\<open>extractDomain\<close> returns a string and does not throw: the
  host name when the input, prefixed with \<^verbatim>\<open>http://\<close> unless it starts with \<^verbatim>\<open>http\<close>,
  parses as a URL, and otherwise the first 30 characters of the input followed by three
  dots. This holds whatever the URL parser accepts.
\<close>

theorem extractDomain_total:
  "(\<exists>d. extractDomain newURL (Some url) = Inr d) \<and>
   (\<forall>urlObj. newURL (if startsWith url ''http'' then url else ''http://'' @ url) = Inr urlObj \<longrightarrow>
      extractDomain newURL (Some url) = Inr (hostname urlObj)) \<and>
   (\<forall>thrown. newURL (if startsWith url ''http'' then url else ''http://'' @ url) = Inl thrown \<longrightarrow>
      extractDomain newURL (Some url) = Inr (take 30 url @ ''...''))"
proof -
  have sub: "substring url 0 30 = take 30 url"
    by (simp add: substring_def Let_def min_def)
  show ?thesis
    by (cases "newURL (if startsWith url ''http'' then url else ''http://'' @ url)")
       (simp_all add: extractDomain_def sub)
qed

theorem extractDomain_total_witness:
  "extractDomain
     (\<lambda>s. if s = ''http://paypal-login.example.com/verify''
          then Inr \<lparr>hostname = ''paypal-login.example.com''\<rparr> else Inl TypeError)
     (Some ''paypal-login.example.com/verify'') = Inr ''paypal-login.example.com'' \<and>
   extractDomain
     (\<lambda>s. if s = ''http://paypal-login.example.com/verify''
          then Inr \<lparr>hostname = ''paypal-login.example.com''\<rparr> else Inl TypeError)
     (Some ''not a url, but a rather long line of text'')
     = Inr ''not a url, but a rather long l...''"
  using extractDomain_total
      [of "\<lambda>s. if s = ''http://paypal-login.example.com/verify''
          then Inr \<lparr>hostname = ''paypal-login.example.com''\<rparr> else Inl TypeError"
          "''paypal-login.example.com/verify''"]
    extractDomain_total
      [of "\<lambda>s. if s = ''http://paypal-login.example.com/verify''
          then Inr \<lparr>hostname = ''paypal-login.example.com''\<rparr> else Inl TypeError"
          "''not a url, but a rather long line of text''"]
  by (simp add: startsWith_def)

section \<open>The unconfigured Supabase client\<close>

lemma unconfigured_stub:
  assumes "VITE_SUPABASE_URL e = None
           \<or> (\<exists>u. VITE_SUPABASE_URL e = Some u \<and> \<not> startsWith u ''https://'')
           \<or> VITE_SUPABASE_ANON_KEY e = None"
  shows "supabase createClient e = stub_auth"
  using assms
  by (auto simp: supabase_def isSupabaseConfigured_def split: option.splits)

lemma stub_run:
  "ProtectedRoute_run stub_auth k n =
     (if n = 0 then ProtectedRoute_mount else \<lparr>session_st = None, loading_st = False\<rparr>)"
  by (cases n) (simp_all add: ProtectedRoute_run_def ProtectedRoute_events_def stub_auth_def
      ProtectedRoute_mount_def ProtectedRoute_render_def)

text \<open>
  Claim C10. When \<^verbatim>\<open>VITE_SUPABASE_URL\<close> is absent or does not start with \<^verbatim>\<open>https://\<close>, or
  \<^verbatim>\<open>VITE_SUPABASE_ANON_KEY\<close> is absent, the exported \<^verbatim>\<open>supabase\<close> is the stub: \<^verbatim>\<open>getSession\<close>
  resolves to a null session, \<^verbatim>\<open>signInWithPassword\<close> and \<^verbatim>\<open>signUp\<close> throw, the callback of
  \<^verbatim>\<open>onAuthStateChange\<close> is never called. So the session of \<^verbatim>\<open>ProtectedRoute\<close> stays null: it
  never renders its children, and it settles on the redirect to \<^verbatim>\<open>/login\<close>: that is its
  render after all events, and after any event at all (before the \<^verbatim>\<open>getSession\<close> promise
  resolves it shows the spinner).
\<close>

theorem unconfigured_never_dashboard:
  assumes "VITE_SUPABASE_URL e = None
           \<or> (\<exists>u. VITE_SUPABASE_URL e = Some u \<and> \<not> startsWith u ''https://'')
           \<or> VITE_SUPABASE_ANON_KEY e = None"
  shows "supabase createClient e = stub_auth \<and>
         getSession (supabase createClient e) = None \<and>
         onAuthStateChange (supabase createClient e) = [] \<and>
         signInWithPassword (supabase createClient e) c = Inl (Error ''Supabase not configured'') \<and>
         signUp (supabase createClient e) c = Inl (Error ''Supabase not configured'') \<and>
         session_st (ProtectedRoute_run (supabase createClient e) k n) = None \<and>
         ProtectedRoute_render (ProtectedRoute_run (supabase createClient e) k n) \<noteq> Children \<and>
         ProtectedRoute_render (ProtectedRoute_run (supabase createClient e) k
             (length (ProtectedRoute_events (supabase createClient e) k))) = Navigate ''/login'' \<and>
         (0 < n \<longrightarrow> ProtectedRoute_render (ProtectedRoute_run (supabase createClient e) k n)
                    = Navigate ''/login'')"
proof -
  have stub: "supabase createClient e = stub_auth"
    using assms by (rule unconfigured_stub)
  show ?thesis
    unfolding stub stub_run
    by (simp add: stub_auth_def ProtectedRoute_render_def ProtectedRoute_mount_def
        ProtectedRoute_events_def)
qed

theorem unconfigured_never_dashboard_witness:
  "\<not> startsWith ''http://project.supabase.co'' ''https://'' \<and>
   signInWithPassword
     (supabase
        (\<lambda>u key. \<lparr>getSession = Some (1 :: nat), onAuthStateChange = [],
                   signInWithPassword = (\<lambda>c. Inr None), signUp = (\<lambda>c. Inr None)\<rparr>)
        \<lparr>VITE_SUPABASE_URL = Some ''http://project.supabase.co'',
          VITE_SUPABASE_ANON_KEY = Some ''anon''\<rparr>) ''user:password''
     = Inl (Error ''Supabase not configured'') \<and>
   ProtectedRoute_render (ProtectedRoute_run
     (supabase
        (\<lambda>u key. \<lparr>getSession = Some (1 :: nat), onAuthStateChange = [],
                   signInWithPassword = (\<lambda>c :: string. Inr None), signUp = (\<lambda>c. Inr None)\<rparr>)
        \<lparr>VITE_SUPABASE_URL = Some ''http://project.supabase.co'',
          VITE_SUPABASE_ANON_KEY = Some ''anon''\<rparr>) 0 1)
     = Navigate ''/login''"
  using unconfigured_never_dashboard
      [of "\<lparr>VITE_SUPABASE_URL = Some ''http://project.supabase.co'',
            VITE_SUPABASE_ANON_KEY = Some ''anon''\<rparr>"
          "\<lambda>u key. \<lparr>getSession = Some (1 :: nat), onAuthStateChange = [],
                   signInWithPassword = (\<lambda>c :: string. Inr None), signUp = (\<lambda>c. Inr None)\<rparr>"
          "''user:password''" 0 1]
  by (auto simp: startsWith_def)

section \<open>Rounding to the nearest double\<close>

lemma rne_of_int: "rne (of_int n) = n"
  by (simp add: rne_def)

lemma rne_range: "\<lfloor>x\<rfloor> \<le> rne x \<and> rne x \<le> \<lfloor>x\<rfloor> + 1"
  by (simp add: rne_def Let_def)

lemma rne_mono: "x \<le> y \<Longrightarrow> rne x \<le> rne y"
proof -
  assume xy: "x \<le> y"
  then have fg: "\<lfloor>x\<rfloor> \<le> \<lfloor>y\<rfloor>" by (rule floor_mono)
  show ?thesis
  proof (cases "\<lfloor>x\<rfloor> = \<lfloor>y\<rfloor>")
    case True
    with xy show ?thesis by (auto simp: rne_def Let_def)
  next
    case False
    with fg have "\<lfloor>x\<rfloor> + 1 \<le> \<lfloor>y\<rfloor>" by simp
    with rne_range [of x] rne_range [of y] show ?thesis by linarith
  qed
qed

lemma rne_error: "\<bar>of_int (rne x) - x\<bar> \<le> 1 / 2"
proof -
  have "of_int \<lfloor>x\<rfloor> \<le> x" "x < of_int \<lfloor>x\<rfloor> + 1" by linarith+
  then show ?thesis by (auto simp: rne_def Let_def)
qed

lemma two_powi_mono: "j \<le> k \<Longrightarrow> (2 :: rat) powi j \<le> 2 powi k"
  by (rule power_int_increasing) simp_all

lemma two_powi_strict: "(2 :: rat) powi j < 2 powi k \<Longrightarrow> j < k"
  using two_powi_mono [of k j] by (cases "j < k") simp_all

lemma two_powi_add: "(2 :: rat) powi (j + k) = 2 powi j * 2 powi k"
  by (simp add: power_int_add)

lemma ilog2_bounds:
  assumes "0 < x"
  shows "2 powi ilog2 x \<le> x \<and> x < 2 powi (ilog2 x + 1)"
proof (cases "1 \<le> x")
  case True
  define n where "n = \<lfloor>x\<rfloor>"
  have n: "1 \<le> n" "of_int n \<le> x" "x < of_int n + 1"
    using True unfolding n_def by linarith+
  then have pos: "0 < n" by simp
  from bitlen_bounds [OF pos]
  have b: "2 ^ nat (bitlen n - 1) \<le> n" "n < 2 ^ nat (bitlen n)" by simp_all
  have k: "1 \<le> bitlen n" using pos bitlen_eq_zero_iff [of n] bitlen_nonneg [of n] by linarith
  have il: "ilog2 x = bitlen n - 1" using True by (simp add: ilog2_def n_def)
  have "(2 :: rat) powi (bitlen n - 1) = of_int (2 ^ nat (bitlen n - 1))"
    using k by (simp add: power_int_nonneg_exp)
  also have "\<dots> \<le> of_int n" using b(1) by (simp only: of_int_le_iff)
  finally have lo: "2 powi (bitlen n - 1) \<le> x" using n(2) by linarith
  have "n + 1 \<le> 2 ^ nat (bitlen n)" using b(2) by simp
  then have "(of_int (n + 1) :: rat) \<le> of_int (2 ^ nat (bitlen n))" by (simp only: of_int_le_iff)
  also have "\<dots> = 2 powi (bitlen n)" using k by (simp add: power_int_nonneg_exp)
  finally have hi: "x < 2 powi (bitlen n)" using n(3) by simp
  show ?thesis using lo hi by (simp add: il)
next
  case False
  define y where "y = 1 / x"
  have y: "1 < y" using assms False by (simp add: y_def)
  define c where "c = \<lceil>y\<rceil>"
  have c: "y \<le> of_int c" "of_int c - 1 < y" "2 \<le> c"
    using y unfolding c_def by linarith+
  have pos: "0 < c - 1" using c(3) by simp
  define j where "j = bitlen (c - 1)"
  from bitlen_bounds [OF pos]
  have b: "2 ^ nat (j - 1) \<le> c - 1" "c - 1 < 2 ^ nat j" by (simp_all add: j_def)
  have j1: "1 \<le> j" using pos bitlen_eq_zero_iff [of "c - 1"] bitlen_nonneg [of "c - 1"]
    unfolding j_def by linarith
  have il: "ilog2 x = - j" using False by (simp add: ilog2_def j_def c_def y_def)
  have "c \<le> 2 ^ nat j" using b(2) by simp
  then have "(of_int c :: rat) \<le> of_int (2 ^ nat j)" by (simp only: of_int_le_iff)
  also have "\<dots> = 2 powi j" using j1 by (simp add: power_int_nonneg_exp)
  finally have yhi: "y \<le> 2 powi j" using c(1) by linarith
  have "(of_int (2 ^ nat (j - 1)) :: rat) \<le> of_int (c - 1)" using b(1) by (simp only: of_int_le_iff)
  moreover have "(of_int (2 ^ nat (j - 1)) :: rat) = 2 powi (j - 1)"
    using j1 by (simp add: power_int_nonneg_exp)
  ultimately have ylo: "2 powi (j - 1) < y" using c(2) by simp
  have x: "x = 1 / y" using assms by (simp add: y_def)
  have "2 powi (- j) \<le> x"
    using yhi y assms unfolding x by (simp add: power_int_minus field_simps)
  moreover have "x < 2 powi (- j + 1)"
  proof -
    have "2 powi (- j + 1) = 1 / (2 :: rat) powi (j - 1)"
      using power_int_minus_divide [of "2 :: rat" "j - 1"] by simp
    moreover have "1 / y < 1 / (2 :: rat) powi (j - 1)"
      using ylo by (simp add: frac_less2)
    ultimately show ?thesis unfolding x by simp
  qed
  ultimately show ?thesis by (simp add: il)
qed

lemma ilog2_mono:
  assumes "0 < x" and "x \<le> y"
  shows "ilog2 x \<le> ilog2 y"
proof -
  have "0 < y" using assms by simp
  from ilog2_bounds [OF assms(1)] ilog2_bounds [OF this]
  have "(2 :: rat) powi ilog2 x < 2 powi (ilog2 y + 1)" using assms(2) by linarith
  then have "ilog2 x < ilog2 y + 1" by (rule two_powi_strict)
  then show ?thesis by simp
qed

lemma quantum_pos: "0 < x \<Longrightarrow> quantum x = max (ilog2 x - 52) (- 1074)"
  by (simp add: quantum_def)

lemma scaled_upper:
  assumes "0 < x"
  shows "x / 2 powi quantum x < 2 ^ 53"
proof -
  have "ilog2 x + 1 \<le> quantum x + 53" using assms by (simp add: quantum_pos)
  then have "(2 :: rat) powi (ilog2 x + 1) \<le> 2 powi (quantum x + 53)" by (rule two_powi_mono)
  with ilog2_bounds [OF assms] have "x < 2 powi (quantum x + 53)" by linarith
  then have "x < 2 ^ 53 * 2 powi quantum x" by (simp add: two_powi_add)
  then show ?thesis by (simp add: pos_divide_less_eq)
qed

lemma scaled_lower:
  assumes "0 < x" and "- 1074 < quantum x"
  shows "2 ^ 52 \<le> x / 2 powi quantum x"
proof -
  have "quantum x + 52 = ilog2 x" using assms by (simp add: quantum_pos)
  with ilog2_bounds [OF assms(1)] have "2 powi (quantum x + 52) \<le> x" by simp
  then have "2 ^ 52 * 2 powi quantum x \<le> x" by (simp add: two_powi_add)
  then show ?thesis by (simp add: pos_le_divide_eq)
qed

lemma round64_nonneg:
  assumes "0 \<le> x"
  shows "0 \<le> round64 x"
proof (cases "x = 0")
  case True
  then show ?thesis by (simp add: round64_def)
next
  case False
  then have "0 \<le> x / 2 powi quantum x" using assms by simp
  then have "rne 0 \<le> rne (x / 2 powi quantum x)" by (rule rne_mono)
  then have "0 \<le> rne (x / 2 powi quantum x)" using rne_of_int [of 0] by simp
  then show ?thesis using False by (simp add: round64_def)
qed

lemma quantum_mono:
  assumes "0 < x" and "x \<le> y"
  shows "quantum x \<le> quantum y"
proof -
  have "0 < y" using assms by simp
  then show ?thesis using ilog2_mono [OF assms] assms(1) by (simp add: quantum_pos)
qed

lemma round64_mono:
  assumes "0 \<le> x" and "x \<le> y"
  shows "round64 x \<le> round64 y"
proof (cases "x = 0")
  case True
  then show ?thesis using round64_nonneg [of y] assms by (simp add: round64_def)
next
  case False
  then have x: "0 < x" and y: "0 < y" using assms by simp_all
  have rx: "round64 x = of_int (rne (x / 2 powi quantum x)) * 2 powi quantum x"
    and ry: "round64 y = of_int (rne (y / 2 powi quantum y)) * 2 powi quantum y"
    using x y by (simp_all add: round64_def)
  show ?thesis
  proof (cases "quantum x = quantum y")
    case True
    have "x / 2 powi quantum y \<le> y / 2 powi quantum y"
      using assms(2) by (simp add: divide_right_mono)
    then have "rne (x / 2 powi quantum y) \<le> rne (y / 2 powi quantum y)" by (rule rne_mono)
    then have "(of_int (rne (x / 2 powi quantum y)) :: rat) \<le> of_int (rne (y / 2 powi quantum y))"
      by (simp only: of_int_le_iff)
    then show ?thesis unfolding rx ry True by (simp add: mult_right_mono)
  next
    case False
    with quantum_mono [OF x assms(2)] have lt: "quantum x + 1 \<le> quantum y" by simp
    then have big: "- 1074 < quantum y" using x by (simp add: quantum_pos)
    have "rne (x / 2 powi quantum x) \<le> rne (of_int (2 ^ 53))"
      using scaled_upper [OF x] by (intro rne_mono) simp
    then have "(of_int (rne (x / 2 powi quantum x)) :: rat) \<le> 2 ^ 53"
      unfolding rne_of_int by (metis of_int_le_iff of_int_numeral of_int_power)
    then have "round64 x \<le> 2 ^ 53 * 2 powi quantum x"
      unfolding rx by (simp add: mult_right_mono)
    also have "\<dots> = 2 powi (quantum x + 53)" by (simp add: two_powi_add)
    also have "\<dots> \<le> 2 powi (quantum y + 52)" using lt by (intro two_powi_mono) simp
    also have "\<dots> = 2 ^ 52 * 2 powi quantum y" by (simp add: two_powi_add)
    also have "\<dots> \<le> round64 y"
    proof -
      have "rne (of_int (2 ^ 52)) \<le> rne (y / 2 powi quantum y)"
        using scaled_lower [OF y big] by (intro rne_mono) simp
      then have "(2 ^ 52 :: rat) \<le> of_int (rne (y / 2 powi quantum y))"
        unfolding rne_of_int by (metis of_int_le_iff of_int_numeral of_int_power)
      then show ?thesis unfolding ry by (simp add: mult_right_mono)
    qed
    finally show ?thesis .
  qed
qed

lemma round64_repr:
  assumes m: "1 \<le> m" "m \<le> 2 ^ 53" and e: "- 1074 \<le> e" and normal: "- 1074 < e \<Longrightarrow> 2 ^ 52 \<le> m"
  shows "round64 (of_int m * 2 powi e) = of_int m * 2 powi e"
proof -
  define y :: rat where "y = of_int m * 2 powi e"
  have y: "0 < y" using m(1) by (simp add: y_def)
  show ?thesis
  proof (cases "m = 2 ^ 53")
    case True
    then have yp: "y = 2 powi (e + 53)" by (simp add: y_def two_powi_add)
    have "2 powi (e + 53) \<le> y" "y < 2 powi (e + 53 + 1)"
      unfolding yp by (simp_all add: two_powi_add)
    then have a: "(2 :: rat) powi ilog2 y < 2 powi (e + 53 + 1)"
      and b: "(2 :: rat) powi (e + 53) < 2 powi (ilog2 y + 1)"
      using ilog2_bounds [OF y] by linarith+
    have "ilog2 y < e + 53 + 1" using a by (rule two_powi_strict)
    moreover have "e + 53 < ilog2 y + 1" using b by (rule two_powi_strict)
    ultimately have "ilog2 y = e + 53" by simp
    then have q: "quantum y = e + 1" using y e by (simp add: quantum_pos)
    have "y / 2 powi (e + 1) = of_int (2 ^ 52)"
      unfolding yp by (simp add: two_powi_add)
    then have "rne (y / 2 powi (e + 1)) = 2 ^ 52" by (simp only: rne_of_int)
    then have "round64 y = 2 ^ 52 * 2 powi (e + 1)" using y by (simp add: round64_def q)
    also have "\<dots> = y" unfolding yp by (simp add: two_powi_add)
    finally show ?thesis by (simp add: y_def)
  next
    case False
    with m(2) have lt: "m < 2 ^ 53" by simp
    then have "(of_int m :: rat) < of_int (2 ^ 53)" by (simp only: of_int_less_iff)
    then have "y < 2 ^ 53 * 2 powi e" by (simp add: y_def)
    then have "y < 2 powi (e + 53)" by (simp add: two_powi_add)
    with ilog2_bounds [OF y] have "(2 :: rat) powi ilog2 y < 2 powi (e + 53)" by linarith
    then have up: "ilog2 y < e + 53" by (rule two_powi_strict)
    have lo: "e + 52 \<le> ilog2 y" if "- 1074 < e"
    proof -
      have "(of_int (2 ^ 52) :: rat) \<le> of_int m" using normal [OF that] by (simp only: of_int_le_iff)
      then have "2 ^ 52 * 2 powi e \<le> y" by (simp add: y_def)
      then have "2 powi (e + 52) \<le> y" by (simp add: two_powi_add)
      with ilog2_bounds [OF y] have "(2 :: rat) powi (e + 52) < 2 powi (ilog2 y + 1)" by linarith
      then have "e + 52 < ilog2 y + 1" by (rule two_powi_strict)
      then show ?thesis by simp
    qed
    have q: "quantum y = e" using up lo e y by (cases "- 1074 < e") (simp_all add: quantum_pos)
    have "y / 2 powi e = of_int m" by (simp add: y_def)
    then have "rne (y / 2 powi e) = m" by (simp only: rne_of_int)
    then have "round64 y = of_int m * 2 powi e" using y by (simp add: round64_def q)
    then show ?thesis by (simp add: y_def)
  qed
qed

lemma round64_idem:
  assumes "0 \<le> x"
  shows "round64 (round64 x) = round64 x"
proof (cases "x = 0")
  case True
  then show ?thesis by (simp add: round64_def)
next
  case False
  then have x: "0 < x" using assms by simp
  define m where "m = rne (x / 2 powi quantum x)"
  have r: "round64 x = of_int m * 2 powi quantum x" using x by (simp add: round64_def m_def)
  have "rne 0 \<le> m" unfolding m_def using x by (intro rne_mono) simp
  then have m0: "0 \<le> m" using rne_of_int [of 0] by simp
  have "m \<le> rne (of_int (2 ^ 53))"
    unfolding m_def using scaled_upper [OF x] by (intro rne_mono) simp
  then have m53: "m \<le> 2 ^ 53" by (simp only: rne_of_int)
  have mlo: "2 ^ 52 \<le> m" if "- 1074 < quantum x"
  proof -
    have "rne (of_int (2 ^ 52)) \<le> m"
      unfolding m_def using scaled_lower [OF x that] by (intro rne_mono) simp
    then show ?thesis by (simp only: rne_of_int)
  qed
  have qlo: "- 1074 \<le> quantum x" by (simp add: quantum_def)
  show ?thesis
  proof (cases "m = 0")
    case True
    then have "round64 x = 0" by (simp add: r)
    then show ?thesis by (simp add: round64_def)
  next
    case False
    with m0 have "1 \<le> m" by simp
    from round64_repr [OF this m53 qlo mlo] show ?thesis by (simp add: r)
  qed
qed

lemma round64_error:
  "\<bar>round64 x - x\<bar> \<le> 2 powi quantum x / 2"
proof (cases "x = 0")
  case True
  then show ?thesis by (simp add: round64_def)
next
  case False
  define q where "q = quantum x"
  define s where "s = x / 2 powi q"
  have "round64 x - x = (of_int (rne s) - s) * 2 powi q"
    using False by (simp add: round64_def s_def q_def algebra_simps)
  then have "\<bar>round64 x - x\<bar> = \<bar>of_int (rne s) - s\<bar> * 2 powi q"
    by (simp add: abs_mult)
  also have "\<dots> \<le> 1 / 2 * 2 powi q"
    using rne_error [of s] by (intro mult_right_mono) simp_all
  finally show ?thesis by (simp add: q_def)
qed

lemma quantum_le:
  assumes "0 < x" and "x < 2 powi k" and "- 1021 \<le> k"
  shows "quantum x \<le> k - 53"
proof -
  from ilog2_bounds [OF assms(1)] assms(2) have "(2 :: rat) powi ilog2 x < 2 powi k" by linarith
  then have "ilog2 x < k" by (rule two_powi_strict)
  then show ?thesis using assms by (simp add: quantum_pos)
qed

subsection \<open>Doubles of the dashboards\<close>

lemma round64_0: "round64 0 = 0"
  by (simp add: round64_def)

lemma round64_1: "round64 1 = 1"
  using round64_repr [of "2 ^ 52" "- 52"] by simp

lemma round64_100: "round64 100 = 100"
  using round64_repr [of "100 * 2 ^ 46" "- 46"] by simp

lemma round64_1000: "round64 1000 = 1000"
  using round64_repr [of "1000 * 2 ^ 43" "- 43"] by simp

lemma round64_max: "round64 (2 ^ 1023) = 2 ^ 1023"
  using round64_repr [of "2 ^ 52" 971] by simp

lemma fl_finite:
  assumes "0 \<le> x" and "x \<le> 2 ^ 1023"
  shows "fl x = Fin (round64 x)"
proof -
  have "0 \<le> round64 x" using assms(1) by (rule round64_nonneg)
  moreover have "round64 x \<le> 2 ^ 1023" using round64_mono [OF assms] by (simp only: round64_max)
  ultimately show ?thesis by (simp add: fl_def Let_def)
qed

lemma fl_0: "fl 0 = Fin 0" by (simp add: fl_def round64_0)
lemma fl_1: "fl 1 = Fin 1" using fl_finite [of 1] by (simp add: round64_1)
lemma fl_100: "fl 100 = Fin 100" using fl_finite [of 100] by (simp add: round64_100)
lemma fl_1000: "fl 1000 = Fin 1000" using fl_finite [of 1000] by (simp add: round64_1000)

lemma unit_error:
  assumes "0 \<le> r" and "r \<le> 1"
  shows "0 \<le> round64 r" and "round64 r \<le> 1" and "\<bar>round64 r - r\<bar> \<le> 1 / 2 ^ 54"
proof -
  show "0 \<le> round64 r" using assms(1) by (rule round64_nonneg)
  show "round64 r \<le> 1" using round64_mono [OF assms] by (simp only: round64_1)
  show "\<bar>round64 r - r\<bar> \<le> 1 / 2 ^ 54"
  proof (cases "r = 0 \<or> r = 1")
    case True
    then show ?thesis by (auto simp: round64_0 round64_1)
  next
    case False
    then have r: "0 < r" "r < 2 powi 0" using assms by simp_all
    from quantum_le [OF r] have "quantum r \<le> - 53" by simp
    then have "(2 :: rat) powi quantum r \<le> 2 powi (- 53)" by (rule two_powi_mono)
    with round64_error [of r] have "\<bar>round64 r - r\<bar> \<le> 2 powi (- 53) / 2" by linarith
    then show ?thesis by (simp add: power_int_minus_divide)
  qed
qed

lemma percent_error:
  assumes "0 \<le> p" and "p \<le> 100"
  shows "0 \<le> round64 p" and "round64 p \<le> 100" and "\<bar>round64 p - p\<bar> \<le> 1 / 2 ^ 47"
proof -
  show "0 \<le> round64 p" using assms(1) by (rule round64_nonneg)
  show "round64 p \<le> 100" using round64_mono [OF assms] by (simp only: round64_100)
  show "\<bar>round64 p - p\<bar> \<le> 1 / 2 ^ 47"
  proof (cases "p = 0")
    case True
    then show ?thesis by (simp add: round64_0)
  next
    case False
    then have p: "0 < p" "p < 2 powi 7" using assms by simp_all
    from quantum_le [OF p] have "quantum p \<le> - 46" by simp
    then have "(2 :: rat) powi quantum p \<le> 2 powi (- 46)" by (rule two_powi_mono)
    with round64_error [of p] have "\<bar>round64 p - p\<bar> \<le> 2 powi (- 46) / 2" by linarith
    then show ?thesis by (simp add: power_int_minus_divide)
  qed
qed

lemma shown_percent:
  assumes "0 \<le> r" and "r \<le> 1"
  shows "\<exists>n. n \<le> 100 \<and> \<bar>of_nat n - r * 100\<bar> \<le> 1 / 2 + 1 / 2 ^ 46 \<and>
           toFixedN 0 (fmul (fl r) (fl 100)) = FixedText False 0 n"
proof -
  define q where "q = round64 r"
  define y where "y = round64 (q * 100)"
  have q: "0 \<le> q" "q \<le> 1" "\<bar>q - r\<bar> \<le> 1 / 2 ^ 54"
    unfolding q_def using unit_error [OF assms] by simp_all
  then have p: "0 \<le> q * 100" "q * 100 \<le> 100" by simp_all
  have y: "0 \<le> y" "y \<le> 100" "\<bar>y - q * 100\<bar> \<le> 1 / 2 ^ 47"
    unfolding y_def using percent_error [OF p] by simp_all
  have flr: "fl r = Fin q" using fl_finite [of r] assms by (simp add: q_def)
  have flp: "fl (q * 100) = Fin y" using fl_finite [of "q * 100"] p by (simp add: y_def)
  have val: "toFixedN 0 (fmul (fl r) (fl 100)) = toFixed 0 y"
    by (simp add: flr fl_100 flp)
  define n where "n = nat \<lfloor>y + 1 / 2\<rfloor>"
  have shown: "toFixed 0 y = FixedText False 0 n"
    using y by (simp add: toFixed_def n_def)
  have fl0: "0 \<le> \<lfloor>y + 1 / 2\<rfloor>" using y by simp
  have "\<lfloor>y + 1 / 2\<rfloor> \<le> 100" using y by (simp add: floor_le_iff)
  then have n100: "n \<le> 100" unfolding n_def by linarith
  have nint: "(of_nat n :: rat) = of_int \<lfloor>y + 1 / 2\<rfloor>" using fl0 by (simp add: n_def)
  have "of_int \<lfloor>y + 1 / 2\<rfloor> \<le> y + 1 / 2" "y + 1 / 2 < of_int \<lfloor>y + 1 / 2\<rfloor> + 1" by linarith+
  then have ny: "\<bar>of_nat n - y\<bar> \<le> 1 / 2" unfolding nint by linarith
  have "q * 100 - r * 100 = (q - r) * 100" by (simp add: algebra_simps)
  then have "\<bar>q * 100 - r * 100\<bar> = \<bar>q - r\<bar> * 100" by (simp only: abs_mult)
  then have scaled: "\<bar>q * 100 - r * 100\<bar> \<le> 100 * (1 / 2 ^ 54)"
    using q(3) by linarith
  have "\<bar>of_nat n - r * 100\<bar> \<le> \<bar>of_nat n - y\<bar> + \<bar>y - q * 100\<bar> + \<bar>q * 100 - r * 100\<bar>"
    by linarith
  also have "\<dots> \<le> 1 / 2 + 1 / 2 ^ 47 + 100 * (1 / 2 ^ 54)"
    using ny y(3) scaled by linarith
  also have "\<dots> \<le> 1 / 2 + 1 / 2 ^ 46" by simp
  finally have "\<bar>of_nat n - r * 100\<bar> \<le> 1 / 2 + 1 / 2 ^ 46" .
  with n100 val shown show ?thesis by auto
qed

lemma round64_int:
  assumes "0 \<le> k" and "k \<le> 2 ^ 53"
  shows "round64 (of_int k) = of_int k"
proof (cases "k = 0 \<or> k = 2 ^ 53")
  case True
  then show ?thesis
    using round64_repr [of "2 ^ 53" 0] by (auto simp: round64_0)
next
  case False
  then have k: "1 \<le> k" "k < 2 ^ 53" using assms by simp_all
  define x :: rat where "x = of_int k"
  have x: "0 < x" using k by (simp add: x_def)
  have "(of_int k :: rat) < of_int (2 ^ 53)" using k(2) by (simp only: of_int_less_iff)
  then have "x < 2 powi 53" by (simp add: x_def)
  from quantum_le [OF x this] have q0: "quantum x \<le> 0" by simp
  define j where "j = nat (- quantum x)"
  have p: "(2 :: rat) powi quantum x = 1 / 2 ^ j"
    using q0 by (cases "quantum x = 0") (simp_all add: power_int_def j_def inverse_eq_divide power_one_over)
  have "x / 2 powi quantum x = of_int (k * 2 ^ j)" unfolding p by (simp add: x_def)
  then have "rne (x / 2 powi quantum x) = k * 2 ^ j" by (simp only: rne_of_int)
  then have "round64 x = of_int (k * 2 ^ j) * (1 / 2 ^ j)"
    using x by (simp add: round64_def p)
  then show ?thesis by (simp add: x_def)
qed

lemma fl_int:
  assumes "0 \<le> k" and "k \<le> 2 ^ 53"
  shows "fl (of_int k) = Fin (of_int k)"
proof -
  have "(of_int k :: rat) \<le> of_int (2 ^ 53)" using assms(2) by (simp only: of_int_le_iff)
  then have "(of_int k :: rat) \<le> 2 ^ 1023" by simp
  moreover have "(0 :: rat) \<le> of_int k" using assms(1) by simp
  ultimately show ?thesis using fl_finite [of "of_int k"] round64_int [OF assms] by simp
qed

lemma fold_PosInfinity:
  "foldl fadd PosInfinity (map Fin Vs) = PosInfinity"
  by (induction Vs) simp_all

lemma fold_fadd_bounds:
  assumes "\<forall>V \<in> set Vs. 0 \<le> V \<and> round64 V = V" and "0 \<le> t" and "round64 t = t"
  shows "foldl fadd (Fin t) (map Fin Vs) = PosInfinity \<or>
         (\<exists>T. foldl fadd (Fin t) (map Fin Vs) = Fin T \<and> t \<le> T \<and> (\<forall>V \<in> set Vs. V \<le> T))"
  using assms
proof (induction Vs arbitrary: t)
  case Nil
  then show ?case by simp
next
  case (Cons V Vs)
  define u where "u = round64 (t + V)"
  have V: "0 \<le> V" "round64 V = V" using Cons.prems(1) by simp_all
  have tu: "t \<le> u" using round64_mono [of t "t + V"] Cons.prems(2,3) V(1) by (simp add: u_def)
  have Vu: "V \<le> u" using round64_mono [of V "t + V"] Cons.prems(2) V by (simp add: u_def)
  have u0: "0 \<le> u" using tu Cons.prems(2) by simp
  have uu: "round64 u = u" unfolding u_def using Cons.prems(2) V(1) by (intro round64_idem) simp
  show ?case
  proof (cases "2 ^ 1024 \<le> u")
    case True
    then have "fl (t + V) = PosInfinity" by (simp add: fl_def u_def Let_def)
    then show ?thesis by (simp add: fold_PosInfinity)
  next
    case False
    then have step: "fl (t + V) = Fin u" using u0 by (simp add: fl_def u_def Let_def)
    have rest: "\<forall>V \<in> set Vs. 0 \<le> V \<and> round64 V = V" using Cons.prems(1) by simp
    from Cons.IH [OF rest u0 uu] show ?thesis
      using tu Vu by (auto simp: step)
  qed
qed

lemma legend_entry_finite:
  assumes "0 \<le> V" and "V \<le> T" and "1 \<le> T"
  shows "\<exists>n. n \<le> 100 \<and> \<bar>of_nat n - V / T * 100\<bar> \<le> 1 / 2 + 1 / 2 ^ 46 \<and>
           legendPercentage (Fin V) (Fin T) = FixedText False 0 n"
proof -
  have r: "0 \<le> V / T" "V / T \<le> 1" using assms by simp_all
  have "legendPercentage (Fin V) (Fin T) = toFixedN 0 (fmul (fl (V / T)) (fl 100))"
    using assms(3) by (simp add: legendPercentage_def)
  with shown_percent [OF r] show ?thesis by simp
qed

lemma legend_entry_infinite:
  "legendPercentage (Fin V) PosInfinity = FixedText False 0 0"
  by (simp add: legendPercentage_def fl_100 fl_0 toFixed_def)

lemma fold_fadd_exact:
  assumes "\<forall>V \<in> set Vs. V \<in> \<nat>" and "t \<in> \<nat>" and "t + sum_list Vs \<le> 2 ^ 53"
  shows "foldl fadd (Fin t) (map Fin Vs) = Fin (t + sum_list Vs)"
  using assms
proof (induction Vs arbitrary: t)
  case Nil
  then show ?case by simp
next
  case (Cons V Vs)
  have V: "V \<in> \<nat>" and rest: "\<forall>V \<in> set Vs. V \<in> \<nat>" using Cons.prems(1) by simp_all
  have "0 \<le> sum_list Vs" using rest by (induction Vs) (auto simp: Nats_def)
  then have le: "t + V \<le> 2 ^ 53" using Cons.prems(3) by simp
  have tv: "t + V \<in> \<nat>" using Cons.prems(2) V by (rule Nats_add)
  then obtain k where k: "t + V = of_nat k" by (auto simp: Nats_def)
  then have "(of_int (int k) :: rat) \<le> of_int (2 ^ 53)" using le by simp
  then have "int k \<le> 2 ^ 53" by (simp only: of_int_le_iff)
  from fl_int [OF _ this] have step: "fl (t + V) = Fin (t + V)" by (simp add: k)
  from Cons.IH [OF rest tv] Cons.prems(3) show ?case by (simp add: step add.assoc)
qed

lemma pinned:
  assumes "\<bar>(of_nat n :: rat) - x\<bar> \<le> 1 / 2 + 1 / 2 ^ 46"
    and "of_nat k - 1 / 2 + 1 / 2 ^ 46 < x" and "x < of_nat k + 1 / 2 - 1 / 2 ^ 46"
  shows "n = k"
proof -
  have "(of_nat n :: rat) < of_nat k + 1" using assms by linarith
  then have "(of_nat n :: rat) < of_nat (k + 1)" by simp
  then have a: "n < k + 1" by (simp only: of_nat_less_iff)
  have "(of_nat k :: rat) < of_nat n + 1" using assms by linarith
  then have "(of_nat k :: rat) < of_nat (n + 1)" by simp
  then have "k < n + 1" by (simp only: of_nat_less_iff)
  with a show ?thesis by simp
qed

lemma pinned_list:
  assumes "list_all2 (\<lambda>(name, v) n. \<bar>(of_nat n :: rat) - f v\<bar> \<le> 1 / 2 + 1 / 2 ^ 46 \<and> P v n) m ns"
    and "list_all2 (\<lambda>(name, v) k. of_nat k - 1 / 2 + 1 / 2 ^ 46 < f v \<and>
                                     f v < of_nat k + 1 / 2 - 1 / 2 ^ 46) m ks"
  shows "ns = ks"
proof (rule nth_equalityI)
  show len: "length ns = length ks"
    using assms by (simp add: list_all2_lengthD [symmetric])
  fix i
  assume "i < length ns"
  then have i: "i < length m" using assms(1) by (simp add: list_all2_lengthD)
  obtain name v where mi: "m ! i = (name, v)" by (cases "m ! i")
  from list_all2_nthD [OF assms(1) i] have a: "\<bar>(of_nat (ns ! i) :: rat) - f v\<bar> \<le> 1 / 2 + 1 / 2 ^ 46"
    by (simp add: mi)
  from list_all2_nthD [OF assms(2) i]
  have b: "of_nat (ks ! i) - 1 / 2 + 1 / 2 ^ 46 < f v" "f v < of_nat (ks ! i) + 1 / 2 - 1 / 2 ^ 46"
    by (simp_all add: mi)
  from a b show "ns ! i = ks ! i" by (rule pinned)
qed

lemma list_all2_exists:
  assumes "\<forall>x \<in> set xs. \<exists>y. P x y"
  shows "\<exists>ys. list_all2 P xs ys"
  using assms
proof (induction xs)
  case Nil
  then show ?case by simp
next
  case (Cons x xs)
  then obtain y ys where "P x y" "list_all2 P xs ys" by auto
  then have "list_all2 P (x # xs) (y # ys)" by simp
  then show ?case ..
qed

section \<open>The statistics reply\<close>

lemma stats_frame:
  assumes "\<forall>k \<in> set spec_stats_fields. da k = db k"
  shows "loadStatistics (\<lambda>r. Inr \<lparr>ok = oa, json = Inr da\<rparr>)
           = loadStatistics (\<lambda>r. Inr \<lparr>ok = ob, json = Inr db\<rparr>)"
    and "Dashboard_overview (Some da) = Dashboard_overview (Some db)"
proof -
  have eqs: "da ''total_analyzed'' = db ''total_analyzed''"
    "da ''phishing_detected'' = db ''phishing_detected''"
    "da ''detection_accuracy'' = db ''detection_accuracy''"
    "da ''avg_response_time_ms'' = db ''avg_response_time_ms''"
    "da ''today_count'' = db ''today_count''"
    "da ''threat_breakdown'' = db ''threat_breakdown''"
    using assms by (simp_all add: spec_stats_fields_def)
  show "loadStatistics (\<lambda>r. Inr \<lparr>ok = oa, json = Inr da\<rparr>)
           = loadStatistics (\<lambda>r. Inr \<lparr>ok = ob, json = Inr db\<rparr>)"
    by (simp add: loadStatistics_def eqs cong: sum.case_cong)
  show "Dashboard_overview (Some da) = Dashboard_overview (Some db)"
    by (simp add: Dashboard_overview_def Dashboard_statCards_def Dashboard_legend_def
        optField_def eqs cong: sum.case_cong option.case_cong)
qed

lemma toNumber_orZero: "toNumber (Some (orZero (Some (NumberV a)))) = fl a"
  by (simp add: orZero_def truthy_def toNumber_def fl_0)

lemma legacy_accuracy:
  assumes "d ''detection_accuracy'' = Some (NumberV a)"
    and "d ''total_analyzed'' = Some (NumberV t)"
  shows "loadStatistics (\<lambda>r. Inr \<lparr>ok = b, json = Inr d\<rparr>) ! 2
           = SetTextContent ''accuracy'' [toFixedN 0 (fmul (fl a) (fl 100)), Lit ''%'']"
  using assms by (simp add: loadStatistics_def formatNumber_def toNumber_def)

lemma react_accuracy:
  assumes "d ''detection_accuracy'' = Some (NumberV a)"
    and "d ''avg_response_time_ms'' = Some (NumberV l)"
  shows "\<exists>cs. Dashboard_statCards (Some d) = Inr cs \<and>
           cs ! 2 = (''Accuracy'', Text [toFixedN 0 (fmul (fl a) (fl 100)), Lit ''%''],
                     [Lit ''Stable''])"
  using assms by (simp add: Dashboard_statCards_def optField_def toNumber_orZero)

lemma fl_literals:
  "fl 1234 = Fin 1234" "fl 200 = Fin 200" "fl 142 = Fin 142" "fl 12 = Fin 12"
  "fl 120 = Fin 120" "fl 80 = Fin 80"
  using fl_int [of 1234] fl_int [of 200] fl_int [of 142] fl_int [of 12]
    fl_int [of 120] fl_int [of 80]
  by simp_all

lemma overview_reads_each_field:
  assumes "toFixedN 0 (fmul (fl a) (fl 100)) = FixedText False 0 n" and "n \<noteq> 0"
  shows
  "let ex = map_of
        [(''total_analyzed'', NumberV 1234), (''phishing_detected'', NumberV 200),
         (''detection_accuracy'', NumberV a), (''avg_response_time_ms'', NumberV 142),
         (''today_count'', NumberV 12),
         (''threat_breakdown'',
          ObjectV [(''Brand Impersonation'', 120), (''Credential Harvesting'', 80)])]
   in Dashboard_overview (Some ex) \<noteq> Dashboard_overview (Some (ex(''total_analyzed'' := None))) \<and>
      Dashboard_overview (Some ex) \<noteq> Dashboard_overview (Some (ex(''phishing_detected'' := None))) \<and>
      Dashboard_overview (Some ex) \<noteq> Dashboard_overview (Some (ex(''detection_accuracy'' := None))) \<and>
      Dashboard_overview (Some ex) \<noteq> Dashboard_overview (Some (ex(''avg_response_time_ms'' := None))) \<and>
      Dashboard_overview (Some ex) \<noteq> Dashboard_overview (Some (ex(''today_count'' := None))) \<and>
      Dashboard_overview (Some ex) \<noteq> Dashboard_overview (Some (ex(''threat_breakdown'' := None)))"
proof -
  have "fl a \<noteq> Fin 0"
  proof
    assume "fl a = Fin 0"
    then have "toFixedN 0 (fmul (fl a) (fl 100)) = FixedText False 0 0"
      by (simp add: fl_100 fl_0 toFixed_def)
    with assms show False by simp
  qed
  with assms show ?thesis
    by (simp add: Let_def Dashboard_overview_def Dashboard_statCards_def Dashboard_legend_def
        optField_def orZero_def truthy_def toNumber_def toFixed_def toString_def
        getThreatData_def fl_literals fl_0 fl_100)
qed

lemma loadStatistics_reads_five_fields:
  assumes "toFixedN 0 (fmul (fl a) (fl 100)) = FixedText False 0 n"
  shows
  "let ex = map_of
        [(''total_analyzed'', NumberV 1234), (''phishing_detected'', NumberV 200),
         (''detection_accuracy'', NumberV a), (''avg_response_time_ms'', NumberV 142),
         (''today_count'', NumberV 12),
         (''threat_breakdown'',
          ObjectV [(''Brand Impersonation'', 120), (''Credential Harvesting'', 80)])];
       reply = (\<lambda>d r. Inr \<lparr>ok = True, json = Inr d\<rparr>)
   in loadStatistics (reply ex) \<noteq> loadStatistics (reply (ex(''total_analyzed'' := None))) \<and>
      loadStatistics (reply ex) = loadStatistics (reply (ex(''phishing_detected'' := None))) \<and>
      loadStatistics (reply ex) \<noteq> loadStatistics (reply (ex(''detection_accuracy'' := None))) \<and>
      loadStatistics (reply ex) \<noteq> loadStatistics (reply (ex(''avg_response_time_ms'' := None))) \<and>
      loadStatistics (reply ex) \<noteq> loadStatistics (reply (ex(''today_count'' := None))) \<and>
      loadStatistics (reply ex) \<noteq> loadStatistics (reply (ex(''threat_breakdown'' := None)))"
  using assms
  by (simp add: Let_def loadStatistics_def formatNumber_def toNumber_def toString_def
      updateDonutChart_def updateDonutLegend_def defaultThreatBreakdown_def
      fl_literals fl_1000 fl_100)

text \<open>
  Claim C7. The reply of \<^verbatim>\<open>GET /api/stats\<close> is consumed through the six fields
  \<^verbatim>\<open>total_analyzed\<close>, \<^verbatim>\<open>phishing_detected\<close>, \<^verbatim>\<open>detection_accuracy\<close>, \<^verbatim>\<open>avg_response_time_ms\<close>,
  \<^verbatim>\<open>today_count\<close> and \<^verbatim>\<open>threat_breakdown\<close>, and through no other: two replies that agree on
  the six give the same writes of the legacy \<^verbatim>\<open>loadStatistics\<close> and the same overview of the
  React \<^verbatim>\<open>Dashboard\<close>. A \<^verbatim>\<open>detection_accuracy\<close> between 0 and 1 is shown as a percentage:
  both dashboards multiply the double by 100, in double arithmetic, and print the product
  with \<^verbatim>\<open>toFixed(0)\<close>; what they print is a whole number between 0 and 100, at most
  \<open>1 / 2 + 1 / 2 ^ 46\<close> away from 100 times the fraction. Each of the six fields is read: on
  an example reply, removing any one of them changes the overview of the React dashboard,
  and removing any but \<^verbatim>\<open>phishing_detected\<close> changes the writes of the legacy dashboard.
\<close>

theorem stats_fields_consumed:
  "((\<forall>k \<in> set spec_stats_fields. da k = db k) \<longrightarrow>
      loadStatistics (\<lambda>r. Inr \<lparr>ok = oa, json = Inr da\<rparr>)
        = loadStatistics (\<lambda>r. Inr \<lparr>ok = ob, json = Inr db\<rparr>) \<and>
      Dashboard_overview (Some da) = Dashboard_overview (Some db)) \<and>
   (d ''detection_accuracy'' = Some (NumberV a) \<and> 0 \<le> a \<and> a \<le> 1 \<and>
    d ''total_analyzed'' = Some (NumberV t) \<and> d ''avg_response_time_ms'' = Some (NumberV l) \<longrightarrow>
      (\<exists>n. toFixedN 0 (fmul (fl a) (fl 100)) = FixedText False 0 n \<and>
           n \<le> 100 \<and> \<bar>of_nat n - a * 100\<bar> \<le> 1 / 2 + 1 / 2 ^ 46 \<and>
           loadStatistics (\<lambda>r. Inr \<lparr>ok = b, json = Inr d\<rparr>) ! 2
             = SetTextContent ''accuracy'' [FixedText False 0 n, Lit ''%''] \<and>
           (\<exists>cs. Dashboard_statCards (Some d) = Inr cs \<and>
              cs ! 2 = (''Accuracy'', Text [FixedText False 0 n, Lit ''%''],
                        [Lit ''Stable''])))) \<and>
   (let ex = map_of
        [(''total_analyzed'', NumberV 1234), (''phishing_detected'', NumberV 200),
         (''detection_accuracy'', NumberV (94 / 100)), (''avg_response_time_ms'', NumberV 142),
         (''today_count'', NumberV 12),
         (''threat_breakdown'',
          ObjectV [(''Brand Impersonation'', 120), (''Credential Harvesting'', 80)])];
       reply = (\<lambda>d r. Inr \<lparr>ok = True, json = Inr d\<rparr>)
    in Dashboard_overview (Some ex) \<noteq> Dashboard_overview (Some (ex(''total_analyzed'' := None))) \<and>
       Dashboard_overview (Some ex) \<noteq> Dashboard_overview (Some (ex(''phishing_detected'' := None))) \<and>
       Dashboard_overview (Some ex) \<noteq> Dashboard_overview (Some (ex(''detection_accuracy'' := None))) \<and>
       Dashboard_overview (Some ex) \<noteq> Dashboard_overview (Some (ex(''avg_response_time_ms'' := None))) \<and>
       Dashboard_overview (Some ex) \<noteq> Dashboard_overview (Some (ex(''today_count'' := None))) \<and>
       Dashboard_overview (Some ex) \<noteq> Dashboard_overview (Some (ex(''threat_breakdown'' := None))) \<and>
       loadStatistics (reply ex) \<noteq> loadStatistics (reply (ex(''total_analyzed'' := None))) \<and>
       loadStatistics (reply ex) = loadStatistics (reply (ex(''phishing_detected'' := None))) \<and>
       loadStatistics (reply ex) \<noteq> loadStatistics (reply (ex(''detection_accuracy'' := None))) \<and>
       loadStatistics (reply ex) \<noteq> loadStatistics (reply (ex(''avg_response_time_ms'' := None))) \<and>
       loadStatistics (reply ex) \<noteq> loadStatistics (reply (ex(''today_count'' := None))) \<and>
       loadStatistics (reply ex) \<noteq> loadStatistics (reply (ex(''threat_breakdown'' := None))))"
proof (intro conjI impI)
  assume "\<forall>k \<in> set spec_stats_fields. da k = db k"
  then show "loadStatistics (\<lambda>r. Inr \<lparr>ok = oa, json = Inr da\<rparr>)
        = loadStatistics (\<lambda>r. Inr \<lparr>ok = ob, json = Inr db\<rparr>)"
    and "Dashboard_overview (Some da) = Dashboard_overview (Some db)"
    by (rule stats_frame)+
next
  assume h: "d ''detection_accuracy'' = Some (NumberV a) \<and> 0 \<le> a \<and> a \<le> 1 \<and>
    d ''total_analyzed'' = Some (NumberV t) \<and> d ''avg_response_time_ms'' = Some (NumberV l)"
  then have a: "0 \<le> a" "a \<le> 1" by simp_all
  from shown_percent [OF a] obtain n where n: "n \<le> 100"
    "\<bar>of_nat n - a * 100\<bar> \<le> 1 / 2 + 1 / 2 ^ 46"
    "toFixedN 0 (fmul (fl a) (fl 100)) = FixedText False 0 n"
    by blast
  have "loadStatistics (\<lambda>r. Inr \<lparr>ok = b, json = Inr d\<rparr>) ! 2
          = SetTextContent ''accuracy'' [FixedText False 0 n, Lit ''%'']"
    using legacy_accuracy [of d a t b] h by (simp only: n(3))
  moreover have "\<exists>cs. Dashboard_statCards (Some d) = Inr cs \<and>
      cs ! 2 = (''Accuracy'', Text [FixedText False 0 n, Lit ''%''], [Lit ''Stable''])"
    using react_accuracy [of d a l] h by (simp only: n(3))
  ultimately show "\<exists>n. toFixedN 0 (fmul (fl a) (fl 100)) = FixedText False 0 n \<and>
           n \<le> 100 \<and> \<bar>of_nat n - a * 100\<bar> \<le> 1 / 2 + 1 / 2 ^ 46 \<and>
           loadStatistics (\<lambda>r. Inr \<lparr>ok = b, json = Inr d\<rparr>) ! 2
             = SetTextContent ''accuracy'' [FixedText False 0 n, Lit ''%''] \<and>
           (\<exists>cs. Dashboard_statCards (Some d) = Inr cs \<and>
              cs ! 2 = (''Accuracy'', Text [FixedText False 0 n, Lit ''%''],
                        [Lit ''Stable'']))"
    using n by blast
next
  have a: "(0 :: rat) \<le> 94 / 100" "(94 / 100 :: rat) \<le> 1" by simp_all
  from shown_percent [OF a] obtain n where n:
    "\<bar>of_nat n - (94 / 100 :: rat) * 100\<bar> \<le> 1 / 2 + 1 / 2 ^ 46"
    "toFixedN 0 (fmul (fl (94 / 100)) (fl 100)) = FixedText False 0 n"
    by blast
  from n(1) have "n = 94" by (rule pinned) simp_all
  then have n0: "n \<noteq> 0" by simp
  show "let ex = map_of
        [(''total_analyzed'', NumberV 1234), (''phishing_detected'', NumberV 200),
         (''detection_accuracy'', NumberV (94 / 100)), (''avg_response_time_ms'', NumberV 142),
         (''today_count'', NumberV 12),
         (''threat_breakdown'',
          ObjectV [(''Brand Impersonation'', 120), (''Credential Harvesting'', 80)])];
       reply = (\<lambda>d r. Inr \<lparr>ok = True, json = Inr d\<rparr>)
    in Dashboard_overview (Some ex) \<noteq> Dashboard_overview (Some (ex(''total_analyzed'' := None))) \<and>
       Dashboard_overview (Some ex) \<noteq> Dashboard_overview (Some (ex(''phishing_detected'' := None))) \<and>
       Dashboard_overview (Some ex) \<noteq> Dashboard_overview (Some (ex(''detection_accuracy'' := None))) \<and>
       Dashboard_overview (Some ex) \<noteq> Dashboard_overview (Some (ex(''avg_response_time_ms'' := None))) \<and>
       Dashboard_overview (Some ex) \<noteq> Dashboard_overview (Some (ex(''today_count'' := None))) \<and>
       Dashboard_overview (Some ex) \<noteq> Dashboard_overview (Some (ex(''threat_breakdown'' := None))) \<and>
       loadStatistics (reply ex) \<noteq> loadStatistics (reply (ex(''total_analyzed'' := None))) \<and>
       loadStatistics (reply ex) = loadStatistics (reply (ex(''phishing_detected'' := None))) \<and>
       loadStatistics (reply ex) \<noteq> loadStatistics (reply (ex(''detection_accuracy'' := None))) \<and>
       loadStatistics (reply ex) \<noteq> loadStatistics (reply (ex(''avg_response_time_ms'' := None))) \<and>
       loadStatistics (reply ex) \<noteq> loadStatistics (reply (ex(''today_count'' := None))) \<and>
       loadStatistics (reply ex) \<noteq> loadStatistics (reply (ex(''threat_breakdown'' := None)))"
    using overview_reads_each_field [OF n(2) n0] loadStatistics_reads_five_fields [OF n(2)]
    unfolding Let_def by (intro conjI) (elim conjE, assumption)+
qed

theorem stats_fields_consumed_witness:
  "loadStatistics (\<lambda>r. Inr \<lparr>ok = True, json = Inr (map_of
        [(''total_analyzed'', NumberV 1234), (''phishing_detected'', NumberV 200),
         (''detection_accuracy'', NumberV (94 / 100)), (''avg_response_time_ms'', NumberV 142),
         (''today_count'', NumberV 12),
         (''threat_breakdown'',
          ObjectV [(''Brand Impersonation'', 120), (''Credential Harvesting'', 80)])])\<rparr>)
     = loadStatistics (\<lambda>r. Inr \<lparr>ok = True, json = Inr (map_of
        [(''model_version'', NumberV 3),
         (''total_analyzed'', NumberV 1234), (''phishing_detected'', NumberV 200),
         (''detection_accuracy'', NumberV (94 / 100)), (''avg_response_time_ms'', NumberV 142),
         (''today_count'', NumberV 12),
         (''threat_breakdown'',
          ObjectV [(''Brand Impersonation'', 120), (''Credential Harvesting'', 80)])])\<rparr>) \<and>
   loadStatistics (\<lambda>r. Inr \<lparr>ok = True, json = Inr (map_of
        [(''model_version'', NumberV 3),
         (''total_analyzed'', NumberV 1234), (''phishing_detected'', NumberV 200),
         (''detection_accuracy'', NumberV (94 / 100)), (''avg_response_time_ms'', NumberV 142),
         (''today_count'', NumberV 12),
         (''threat_breakdown'',
          ObjectV [(''Brand Impersonation'', 120), (''Credential Harvesting'', 80)])])\<rparr>) ! 2
     = SetTextContent ''accuracy'' [FixedText False 0 94, Lit ''%'']"
proof -
  let ?da = "map_of
        [(''total_analyzed'', NumberV 1234), (''phishing_detected'', NumberV 200),
         (''detection_accuracy'', NumberV (94 / 100)), (''avg_response_time_ms'', NumberV 142),
         (''today_count'', NumberV 12),
         (''threat_breakdown'',
          ObjectV [(''Brand Impersonation'', 120), (''Credential Harvesting'', 80)])]"
  let ?db = "map_of
        [(''model_version'', NumberV 3),
         (''total_analyzed'', NumberV 1234), (''phishing_detected'', NumberV 200),
         (''detection_accuracy'', NumberV (94 / 100)), (''avg_response_time_ms'', NumberV 142),
         (''today_count'', NumberV 12),
         (''threat_breakdown'',
          ObjectV [(''Brand Impersonation'', 120), (''Credential Harvesting'', 80)])]"
  note consumed = stats_fields_consumed
    [where da = ?da and db = ?db and oa = True and ob = True and d = ?db
       and a = "94 / 100" and t = 1234 and l = 142 and b = True]
  have agree: "\<forall>k \<in> set spec_stats_fields. ?da k = ?db k"
    by (simp add: spec_stats_fields_def)
  have fields: "?db ''detection_accuracy'' = Some (NumberV (94 / 100)) \<and>
      (0 :: rat) \<le> 94 / 100 \<and> (94 / 100 :: rat) \<le> 1 \<and>
      ?db ''total_analyzed'' = Some (NumberV 1234) \<and>
      ?db ''avg_response_time_ms'' = Some (NumberV 142)"
    by simp
  from consumed [THEN conjunct1, THEN mp, OF agree]
  have frame: "loadStatistics (\<lambda>r. Inr \<lparr>ok = True, json = Inr ?da\<rparr>)
                 = loadStatistics (\<lambda>r. Inr \<lparr>ok = True, json = Inr ?db\<rparr>)"
    by (rule conjunct1)
  from consumed [THEN conjunct2, THEN conjunct1, THEN mp, OF fields]
  obtain n where n: "\<bar>of_nat n - (94 / 100 :: rat) * 100\<bar> \<le> 1 / 2 + 1 / 2 ^ 46"
    and shown: "loadStatistics (\<lambda>r. Inr \<lparr>ok = True, json = Inr ?db\<rparr>) ! 2
             = SetTextContent ''accuracy'' [FixedText False 0 n, Lit ''%'']"
    by blast
  from n have "n = 94" by (rule pinned) simp_all
  with frame shown show ?thesis by (simp only: simp_thms)
qed

section \<open>The legend of the threat breakdown\<close>

lemma legend_unfold:
  assumes "s ''threat_breakdown'' = Some (ObjectV m)"
  shows "Dashboard_legend (Some s) =
           map (\<lambda>(name, v). (name,
                  [toFixedN 0
                     (fmul (fdiv (fl v) (foldl fadd (fl 1) (map (\<lambda>(name, v). fl v) m)))
                        (fl 100)),
                   Lit ''%''])) m"
  by (simp add: Dashboard_legend_def optField_def assms getThreatData_def truthy_def
      breakdownTotal_def legendPercentage_def split_def comp_def)

lemma legend_doubles:
  assumes m: "s ''threat_breakdown'' = Some (ObjectV m)"
    and rng: "\<forall>v \<in> set (map snd m). fl v = Fin (g v)"
  shows "Dashboard_legend (Some s) =
           map (\<lambda>(name, v). (name,
                  [legendPercentage (Fin (g v))
                     (foldl fadd (Fin 1) (map Fin (map (\<lambda>(name, v). g v) m))),
                   Lit ''%''])) m"
proof -
  have "map (\<lambda>(name, v). fl v) m = map Fin (map (\<lambda>(name, v). g v) m)"
    using rng by (auto simp: split_def)
  then have total: "foldl fadd (fl 1) (map (\<lambda>(name, v). fl v) m)
                      = foldl fadd (Fin 1) (map Fin (map (\<lambda>(name, v). g v) m))"
    by (simp only: fl_1)
  show ?thesis
    unfolding legend_unfold [where s = s and m = m, OF m] total
    using rng by (auto simp: legendPercentage_def)
qed

lemma legend_bounds:
  assumes m: "s ''threat_breakdown'' = Some (ObjectV m)"
    and rng: "\<forall>v \<in> set (map snd m). 0 \<le> v \<and> v \<le> 2 ^ 1023"
  shows "\<forall>entry \<in> set (Dashboard_legend (Some s)).
           \<exists>n. n \<le> 100 \<and> snd entry = [FixedText False 0 n, Lit ''%'']"
proof -
  have fin: "\<forall>v \<in> set (map snd m). fl v = Fin (round64 v)"
    using rng by (auto simp: fl_finite)
  let ?Vs = "map (\<lambda>(name, v). round64 v) m"
  have Vs: "\<forall>V \<in> set ?Vs. 0 \<le> V \<and> round64 V = V"
    using rng by (auto simp: round64_nonneg round64_idem)
  have one: "(0 :: rat) \<le> 1" "round64 1 = 1" by (simp_all add: round64_1)
  have "\<exists>n. n \<le> 100 \<and> legendPercentage (Fin (round64 v))
                          (foldl fadd (Fin 1) (map Fin ?Vs)) = FixedText False 0 n"
    if "(name, v) \<in> set m" for name v
  proof -
    have V: "round64 v \<in> set ?Vs" using that by force
    then have V0: "0 \<le> round64 v" using Vs by blast
    from fold_fadd_bounds [OF Vs one] show ?thesis
    proof
      assume "foldl fadd (Fin 1) (map Fin ?Vs) = PosInfinity"
      then show ?thesis by (simp add: legend_entry_infinite)
    next
      assume "\<exists>T. foldl fadd (Fin 1) (map Fin ?Vs) = Fin T \<and> 1 \<le> T \<and> (\<forall>V \<in> set ?Vs. V \<le> T)"
      then obtain T where T: "foldl fadd (Fin 1) (map Fin ?Vs) = Fin T" "1 \<le> T"
        "\<forall>V \<in> set ?Vs. V \<le> T" by blast
      from T(3) V have "round64 v \<le> T" by blast
      from legend_entry_finite [OF V0 this T(2)] show ?thesis unfolding T(1) by blast
    qed
  qed
  then show ?thesis
    unfolding legend_doubles [where s = s and m = m and g = round64, OF m fin]
    by auto
qed

lemma map_zip_all2:
  assumes "list_all2 (\<lambda>x n. f x = g x n) xs ns"
  shows "map f xs = map (\<lambda>(x, n). g x n) (zip xs ns)"
  using assms by (induction rule: list_all2_induct) simp_all

lemma legend_counts:
  assumes m: "s ''threat_breakdown'' = Some (ObjectV m)"
    and nat: "\<forall>v \<in> set (map snd m). v \<in> \<nat>"
    and le: "1 + sum_list (map snd m) \<le> 2 ^ 53"
  shows "\<exists>ns. list_all2 (\<lambda>(name, v) n.
                  \<bar>of_nat n - v / (1 + sum_list (map snd m)) * 100\<bar> \<le> 1 / 2 + 1 / 2 ^ 46 \<and>
                  n \<le> 100) m ns \<and>
              Dashboard_legend (Some s) =
                map (\<lambda>((name, v), n). (name, [FixedText False 0 n, Lit ''%''])) (zip m ns)"
proof -
  let ?S = "sum_list (map snd m)"
  have nonneg: "\<forall>v \<in> set (map snd m). 0 \<le> v" using nat by (auto simp: Nats_def)
  have S0: "0 \<le> ?S" using nonneg by (intro sum_list_nonneg) auto
  have mem: "v \<le> ?S" if "v \<in> set (map snd m)" for v
    using that nonneg by (intro member_le_sum_list) auto
  have fin: "\<forall>v \<in> set (map snd m). fl v = Fin v"
  proof
    fix v
    assume v: "v \<in> set (map snd m)"
    with nat obtain k where k: "v = of_nat k" by (auto simp: Nats_def)
    have "v \<le> 2 ^ 53" using mem [OF v] le by simp
    then have "(of_int (int k) :: rat) \<le> of_int (2 ^ 53)" by (simp add: k)
    then have "int k \<le> 2 ^ 53" by (simp only: of_int_le_iff)
    from fl_int [OF _ this] show "fl v = Fin v" by (simp add: k)
  qed
  have snd_eq: "map (\<lambda>(name, v). v) m = map snd m" by (simp add: split_def)
  have "foldl fadd (Fin 1) (map Fin (map snd m)) = Fin (1 + ?S)"
    using nat le by (intro fold_fadd_exact) simp_all
  then have total: "foldl fadd (Fin 1) (map Fin (map (\<lambda>(name, v). v) m)) = Fin (1 + ?S)"
    by (simp only: snd_eq)
  have leg: "Dashboard_legend (Some s) =
           map (\<lambda>(name, v). (name, [legendPercentage (Fin v) (Fin (1 + ?S)), Lit ''%''])) m"
    unfolding legend_doubles [where s = s and m = m and g = "\<lambda>v. v", OF m fin] total ..
  have "\<forall>x \<in> set m. \<exists>n. (\<lambda>(name, v) n.
          (\<bar>of_nat n - v / (1 + ?S) * 100\<bar> \<le> 1 / 2 + 1 / 2 ^ 46 \<and> n \<le> 100) \<and>
          legendPercentage (Fin v) (Fin (1 + ?S)) = FixedText False 0 n) x n"
  proof
    fix x
    assume x: "x \<in> set m"
    obtain name v where xv: "x = (name, v)" by (cases x)
    have v: "v \<in> set (map snd m)" using x xv by force
    have "0 \<le> v" "v \<le> 1 + ?S" "1 \<le> 1 + ?S" using nonneg v mem [OF v] S0 by auto
    from legend_entry_finite [OF this] show "\<exists>n. (\<lambda>(name, v) n.
          (\<bar>of_nat n - v / (1 + ?S) * 100\<bar> \<le> 1 / 2 + 1 / 2 ^ 46 \<and> n \<le> 100) \<and>
          legendPercentage (Fin v) (Fin (1 + ?S)) = FixedText False 0 n) x n"
      unfolding xv by auto
  qed
  from list_all2_exists [OF this] obtain ns where ns: "list_all2 (\<lambda>(name, v) n.
          (\<bar>of_nat n - v / (1 + ?S) * 100\<bar> \<le> 1 / 2 + 1 / 2 ^ 46 \<and> n \<le> 100) \<and>
          legendPercentage (Fin v) (Fin (1 + ?S)) = FixedText False 0 n) m ns" ..
  then have a: "list_all2 (\<lambda>(name, v) n.
          \<bar>of_nat n - v / (1 + ?S) * 100\<bar> \<le> 1 / 2 + 1 / 2 ^ 46 \<and> n \<le> 100) m ns"
    by (rule list_all2_mono) auto
  from ns have "list_all2 (\<lambda>x n. (\<lambda>(name, v). (name, [legendPercentage (Fin v) (Fin (1 + ?S)), Lit ''%''])) x
                   = (\<lambda>(name, v) n. (name, [FixedText False 0 n, Lit ''%''])) x n) m ns"
    by (rule list_all2_mono) auto
  from map_zip_all2 [OF this]
  have "map (\<lambda>(name, v). (name, [legendPercentage (Fin v) (Fin (1 + ?S)), Lit ''%''])) m
      = map (\<lambda>((name, v), n). (name, [FixedText False 0 n, Lit ''%''])) (zip m ns)"
    by (simp add: split_def)
  with leg a show ?thesis by auto
qed

lemma legend_counts_shown:
  assumes m: "s ''threat_breakdown'' = Some (ObjectV m)"
    and nat: "\<forall>v \<in> set (map snd m). v \<in> \<nat>"
    and le: "1 + sum_list (map snd m) \<le> 2 ^ 53"
    and ks: "list_all2 (\<lambda>(name, v) k.
                of_nat k - 1 / 2 + 1 / 2 ^ 46 < v / (1 + sum_list (map snd m)) * 100 \<and>
                v / (1 + sum_list (map snd m)) * 100 < of_nat k + 1 / 2 - 1 / 2 ^ 46) m ks"
  shows "Dashboard_legend (Some s) =
           map (\<lambda>((name, v), n). (name, [FixedText False 0 n, Lit ''%''])) (zip m ks)"
proof -
  from legend_counts [where s = s and m = m, OF m nat le] obtain ns where
    ns: "list_all2 (\<lambda>(name, v) n.
                  \<bar>of_nat n - v / (1 + sum_list (map snd m)) * 100\<bar> \<le> 1 / 2 + 1 / 2 ^ 46 \<and>
                  n \<le> 100) m ns"
    and leg: "Dashboard_legend (Some s) =
                map (\<lambda>((name, v), n). (name, [FixedText False 0 n, Lit ''%''])) (zip m ns)"
    by blast
  from ns ks have "ns = ks" by (rule pinned_list)
  with leg show ?thesis by simp
qed

lemma shown_bounds:
  assumes "\<forall>entry \<in> set (Dashboard_legend stats).
             \<exists>n. n \<le> 100 \<and> snd entry = [FixedText False 0 n, Lit ''%'']"
  shows "\<forall>p \<in> set (legendShown stats). 0 \<le> p \<and> p \<le> 100"
  using assms by (fastforce simp: legendShown_def shownInteger_def)

text \<open>
  Claim C8, as stated: the legend shows for each entry its value divided by one plus the
  sum of all values, times 100, rounded; consequently, for positive values, the shown
  percentages sum to strictly less than 100. The rounding undoes the consequence: a single
  entry of value 200 is shown as 100 percent, and the three entries 336, 336 and 327 are
  shown as 34, 34 and 33 percent, 101 in sum.
\<close>

theorem legend_sum_reaches_100:
  "legendShown (Some (map_of
      [(''threat_breakdown'', ObjectV [(''Brand Impersonation'', 200)])])) = [100] \<and>
   legendShown (Some (map_of
      [(''threat_breakdown'',
        ObjectV [(''Brand Impersonation'', 336), (''Credential Harvesting'', 336),
                 (''Malware Distribution'', 327)])])) = [34, 34, 33] \<and>
   \<not> sum_list (legendShown (Some (map_of
      [(''threat_breakdown'',
        ObjectV [(''Brand Impersonation'', 336), (''Credential Harvesting'', 336),
                 (''Malware Distribution'', 327)])]))) < 100"
proof -
  have one: "Dashboard_legend (Some (map_of
      [(''threat_breakdown'', ObjectV [(''Brand Impersonation'', 200)])]))
      = map (\<lambda>((name, v), n). (name, [FixedText False 0 n, Lit ''%'']))
          (zip [(''Brand Impersonation'', 200 :: rat)] [100])"
    by (rule legend_counts_shown) simp_all
  have three: "Dashboard_legend (Some (map_of
      [(''threat_breakdown'',
        ObjectV [(''Brand Impersonation'', 336), (''Credential Harvesting'', 336),
                 (''Malware Distribution'', 327)])]))
      = map (\<lambda>((name, v), n). (name, [FixedText False 0 n, Lit ''%'']))
          (zip [(''Brand Impersonation'', 336 :: rat), (''Credential Harvesting'', 336),
                (''Malware Distribution'', 327)] [34, 34, 33])"
    by (rule legend_counts_shown) simp_all
  show ?thesis
    unfolding legendShown_def one three by (simp add: shownInteger_def)
qed

text \<open>
  Claim C8, amended. The legend of the React \<^verbatim>\<open>Dashboard\<close> shows for each entry of the
  breakdown the \<^verbatim>\<open>toFixed(0)\<close> of its value divided by the total and multiplied by 100, all
  in double arithmetic, the total being the values added one after the other to the initial
  1. When the values are not negative (and at most \<open>2 ^ 1023\<close>), every entry shows a whole
  number between 0 and 100. When the values are counts, whole numbers with one plus their
  sum at most \<open>2 ^ 53\<close>, the total is one plus their sum exactly, and the number shown for
  an entry is at most \<open>1 / 2 + 1 / 2 ^ 46\<close> away from its value divided by one plus the sum,
  times 100: that quotient rounded to a nearest integer, up to the rounding of the division
  and the multiplication. The sum of the shown percentages is not bounded by 100.
\<close>

theorem legend_percentages:
  assumes "s ''threat_breakdown'' = Some (ObjectV m)"
    and "\<forall>v \<in> set (map snd m). 0 \<le> v \<and> v \<le> 2 ^ 1023"
  shows "Dashboard_legend (Some s) =
           map (\<lambda>(name, v). (name,
                  [toFixedN 0
                     (fmul (fdiv (fl v) (foldl fadd (fl 1) (map (\<lambda>(name, v). fl v) m)))
                        (fl 100)),
                   Lit ''%''])) m \<and>
         (\<forall>entry \<in> set (Dashboard_legend (Some s)).
            \<exists>n. n \<le> 100 \<and> snd entry = [FixedText False 0 n, Lit ''%'']) \<and>
         (\<forall>p \<in> set (legendShown (Some s)). 0 \<le> p \<and> p \<le> 100) \<and>
         ((\<forall>v \<in> set (map snd m). v \<in> \<nat>) \<and> 1 + sum_list (map snd m) \<le> 2 ^ 53 \<longrightarrow>
            (\<exists>ns. list_all2 (\<lambda>(name, v) n.
                      \<bar>of_nat n - v / (1 + sum_list (map snd m)) * 100\<bar> \<le> 1 / 2 + 1 / 2 ^ 46 \<and>
                      n \<le> 100) m ns \<and>
                  Dashboard_legend (Some s) =
                    map (\<lambda>((name, v), n). (name, [FixedText False 0 n, Lit ''%'']))
                      (zip m ns)))"
proof (intro conjI impI)
  show "Dashboard_legend (Some s) =
           map (\<lambda>(name, v). (name,
                  [toFixedN 0
                     (fmul (fdiv (fl v) (foldl fadd (fl 1) (map (\<lambda>(name, v). fl v) m)))
                        (fl 100)),
                   Lit ''%''])) m"
    using assms(1) by (rule legend_unfold)
  show entries: "\<forall>entry \<in> set (Dashboard_legend (Some s)).
            \<exists>n. n \<le> 100 \<and> snd entry = [FixedText False 0 n, Lit ''%'']"
    using assms by (rule legend_bounds)
  then show "\<forall>p \<in> set (legendShown (Some s)). 0 \<le> p \<and> p \<le> 100"
    by (rule shown_bounds)
next
  assume counts: "(\<forall>v \<in> set (map snd m). v \<in> \<nat>) \<and> 1 + sum_list (map snd m) \<le> 2 ^ 53"
  then have "\<forall>v \<in> set (map snd m). v \<in> \<nat>" and "1 + sum_list (map snd m) \<le> 2 ^ 53"
    by simp_all
  with assms(1) show "\<exists>ns. list_all2 (\<lambda>(name, v) n.
                      \<bar>of_nat n - v / (1 + sum_list (map snd m)) * 100\<bar> \<le> 1 / 2 + 1 / 2 ^ 46 \<and>
                      n \<le> 100) m ns \<and>
                  Dashboard_legend (Some s) =
                    map (\<lambda>((name, v), n). (name, [FixedText False 0 n, Lit ''%'']))
                      (zip m ns)"
    by (rule legend_counts)
qed

theorem legend_percentages_witness:
  "Dashboard_legend (Some (map_of
      [(''threat_breakdown'',
        ObjectV [(''Brand Impersonation'', 120), (''Credential Harvesting'', 80)])]))
     = [(''Brand Impersonation'', [FixedText False 0 60, Lit ''%'']),
        (''Credential Harvesting'', [FixedText False 0 40, Lit ''%''])] \<and>
   legendShown (Some (map_of
      [(''threat_breakdown'',
        ObjectV [(''Brand Impersonation'', 120), (''Credential Harvesting'', 80)])]))
     = [60, 40]"
proof -
  let ?m = "[(''Brand Impersonation'', 120 :: rat), (''Credential Harvesting'', 80)]"
  let ?s = "map_of [(''threat_breakdown'', ObjectV ?m)]"
  have breakdown: "?s ''threat_breakdown'' = Some (ObjectV ?m)" by simp
  have range: "\<forall>v \<in> set (map snd ?m). 0 \<le> v \<and> v \<le> 2 ^ 1023" by simp
  have counts: "(\<forall>v \<in> set (map snd ?m). v \<in> \<nat>) \<and> 1 + sum_list (map snd ?m) \<le> 2 ^ 53"
    by simp
  note legend = legend_percentages [where s = ?s and m = ?m, OF breakdown range]
  from legend [THEN conjunct2, THEN conjunct2, THEN conjunct2, THEN mp, OF counts]
  obtain ns where ns: "list_all2 (\<lambda>(name, v) n.
        \<bar>of_nat n - v / (1 + sum_list (map snd ?m)) * 100\<bar> \<le> 1 / 2 + 1 / 2 ^ 46 \<and>
        n \<le> 100) ?m ns"
    and shown: "Dashboard_legend (Some ?s) =
        map (\<lambda>((name, v), n). (name, [FixedText False 0 n, Lit ''%''])) (zip ?m ns)"
    by blast
  from ns have "ns = [60, 40]" by (rule pinned_list) simp
  with shown have "Dashboard_legend (Some ?s)
     = [(''Brand Impersonation'', [FixedText False 0 60, Lit ''%'']),
        (''Credential Harvesting'', [FixedText False 0 40, Lit ''%''])]"
    by simp
  then show ?thesis by (simp add: legendShown_def shownInteger_def)
qed

end
